theory Spec2Isabelle
  imports Main
begin

section \<open>The status-effect name list of the API facade\<close>

text \<open>
  The API object keeps the list of status-effect names in the host's settings store
  under the key \<open>statusEffectNames\<close>. The store is modelled as a record holding the
  value saved under that key: \<open>game.settings.get\<close> reads the field,
  \<open>game.settings.set\<close> replaces it.
\<close>

record Settings =
  statusEffectNames_setting :: "string list"

definition defaultStatusEffectNames :: "string list" where
  \<comment> \<open>\<open>get _defaultStatusEffectNames() { return [ ]; }\<close>\<close>
  "defaultStatusEffectNames = []"

definition statusEffectNames :: "Settings \<Rightarrow> string list" where
  \<comment> \<open>\<open>game.settings.get(CONSTANTS.MODULE_NAME, 'statusEffectNames')\<close>\<close>
  "statusEffectNames s = statusEffectNames_setting s"

definition settings_set :: "Settings \<Rightarrow> string list \<Rightarrow> Settings" where
  \<comment> \<open>\<open>game.settings.set(CONSTANTS.MODULE_NAME, 'statusEffectNames', v)\<close>\<close>
  "settings_set s v = s\<lparr>statusEffectNames_setting := v\<rparr>"

text \<open>
  \<open>[...new Set(array)]\<close>: a JavaScript \<open>Set\<close> keeps its members in insertion order
  and ignores the insertion of a member it already holds; the spread lists the members
  in that order.
\<close>

definition Set_add :: "'a list \<Rightarrow> 'a \<Rightarrow> 'a list" where
  "Set_add members x = (if x \<in> set members then members else members @ [x])"

definition new_Set :: "'a list \<Rightarrow> 'a list" where
  "new_Set xs = foldl Set_add [] xs"

definition addStatusEffect :: "string \<Rightarrow> Settings \<Rightarrow> Settings" where
  \<comment> \<open>\<open>push(name)\<close>, then \<open>[...new Set(statusEffectsArray)]\<close>, then \<open>settings.set\<close>\<close>
  "addStatusEffect name s =
     (let statusEffectsArray = statusEffectNames s @ [name];
          statusEffectsArray = new_Set statusEffectsArray
      in settings_set s statusEffectsArray)"

definition removeStatusEffect :: "string \<Rightarrow> Settings \<Rightarrow> Settings" where
  "removeStatusEffect name s =
     (let statusEffectsArray = filter (\<lambda>statusEffect. statusEffect \<noteq> name) (statusEffectNames s)
      in settings_set s statusEffectsArray)"

definition resetStatusEffects :: "Settings \<Rightarrow> Settings" where
  "resetStatusEffects s = settings_set s defaultStatusEffectNames"

definition isStatusEffect :: "string \<Rightarrow> Settings \<Rightarrow> bool" where
  \<comment> \<open>\<open>this.statusEffectNames.includes(name)\<close>\<close>
  "isStatusEffect name s = (name \<in> set (statusEffectNames s))"

text \<open>
  The positions of a list that hold the first occurrence of their element, in order:
  what "each name once, in the order of first occurrence" means for a list.
\<close>

definition first_occurrences :: "'a list \<Rightarrow> 'a list" where
  "first_occurrences xs = map (\<lambda>i. xs ! i) (filter (\<lambda>i. xs ! i \<notin> set (take i xs)) [0..<length xs])"

section \<open>The effect handler: data\<close>

text \<open>
  The handler works on documents the host engine owns. An active effect is the host's
  document embedded in an actor: its id (\<open>id\<close>, \<open>data._id\<close>), the document's
  \<open>name\<close> (unset on hosts where only the label exists), \<open>data.label\<close>,
  \<open>data.disabled\<close>, \<open>data.origin\<close>, the overlay flag and the flag
  \<open>core.statusId\<close>. A string the code only tests for truthiness is a \<open>string\<close>
  whose empty value stands for every falsy value (\<open>undefined\<close>, \<open>null\<close>, \<open>''\<close>).
\<close>

type_synonym uuid = string

record ActiveEffect =
  ae_id :: string
  ae_name :: "string option"
  ae_label :: string
  ae_disabled :: bool
  ae_origin :: string
  ae_overlay :: bool
  ae_statusId :: string

record Actor =
  actor_id :: string
  actor_name :: string
  effects :: "ActiveEffect list"

record Token =
  token_id :: string
  token_name :: string
  token_actor :: "uuid option"
  token_scene_id :: "string option"

text \<open>The plain \<open>Effect\<close> value object, with the fields the handler reads and writes.\<close>

record Effect =
  eff_customId :: string
  eff_name :: string
  eff_origin :: string
  eff_overlay :: bool

datatype error = TypeError | Error string

text \<open>
  The calls the handler makes on the host: \<open>actor.createEmbeddedDocuments\<close>,
  \<open>actor.deleteEmbeddedDocuments\<close>, \<open>actor.updateEmbeddedDocuments\<close> (each for the
  document type \<open>'ActiveEffect'\<close>), and \<open>activeEffect.delete()\<close> and
  \<open>activeEffect.update({disabled: b})\<close> on one embedded document of an actor.
\<close>

datatype host_call =
    Create uuid ActiveEffect
  | Delete uuid "string list"
  | Update uuid ActiveEffect
  | DocDelete uuid string
  | DocUpdate uuid string bool

text \<open>
  What the handler imports and this development does not have the source of: the helpers
  \<open>isStringEquals\<close> and \<open>i18n\<close>, the conversions of \<open>EffectSupport\<close> and its
  \<open>_handleIntegrations\<close>, and, of the host, whether it carries a call out
  (\<open>hostAllows\<close>: a hook may veto a creation, a deletion or an update, and the call then
  returns nothing) and the id it gives to the \<open>n\<close>-th document it creates. They are
  parameters of every handler function.
\<close>

record Env =
  isStringEquals :: "string \<Rightarrow> string \<Rightarrow> bool"
  i18n :: "string \<Rightarrow> string"
  convertToActiveEffectData :: "Effect \<Rightarrow> ActiveEffect"
  convertActiveEffectToEffect :: "ActiveEffect \<Rightarrow> Effect"
  handleIntegrations :: "Effect \<Rightarrow> Effect"
  hostAllows :: "host_call \<Rightarrow> bool"
  randomID :: "nat \<Rightarrow> string"

text \<open>
  The host's documents: actors and tokens by uuid, the id of the canvas's scene, the
  calls made on the host so far, and the number of documents created so far.
\<close>

record World =
  actors :: "uuid \<rightharpoonup> Actor"
  tokens :: "uuid \<rightharpoonup> Token"
  canvas_scene_id :: "string option"
  calls :: "host_call list"
  created :: nat

definition getActorByUuid :: "World \<Rightarrow> uuid \<Rightarrow> Actor option" where
  \<comment> \<open>\<open>this._foundryHelpers.getActorByUuid(uuid)\<close>, \<open>undefined\<close> for an unknown uuid\<close>
  "getActorByUuid w uuid = actors w uuid"

definition getTokenByUuid :: "World \<Rightarrow> uuid \<Rightarrow> Token option" where
  "getTokenByUuid w uuid = tokens w uuid"

definition first_element :: "'a list \<Rightarrow> 'a option" where
  \<comment> \<open>\<open>array[0]\<close>: \<open>undefined\<close> on an empty array\<close>
  "first_element xs = (case xs of [] \<Rightarrow> None | x # _ \<Rightarrow> Some x)"

subsection \<open>The host's side of the calls\<close>

text \<open>
  The host engine is not part of the repository. Its side of each call is modelled
  after the host's documented behaviour: every call is recorded; a call the host
  carries out changes the embedded collection of the actor and returns the documents
  concerned; a call it does not carry out changes nothing and returns nothing.
\<close>

definition host_log :: "World \<Rightarrow> host_call \<Rightarrow> World" where
  "host_log w c = w\<lparr>calls := calls w @ [c]\<rparr>"

definition set_effects :: "World \<Rightarrow> uuid \<Rightarrow> Actor \<Rightarrow> ActiveEffect list \<Rightarrow> World" where
  "set_effects w uuid a es = w\<lparr>actors := (actors w)(uuid \<mapsto> a\<lparr>effects := es\<rparr>)\<rparr>"

definition createEmbeddedDocuments ::
  "Env \<Rightarrow> World \<Rightarrow> uuid \<Rightarrow> ActiveEffect \<Rightarrow> ActiveEffect list \<times> World" where
  \<comment> \<open>the created document is the data with a new id, appended to the collection\<close>
  "createEmbeddedDocuments E w uuid d =
     (let c = Create uuid d; w1 = host_log w c in
      case actors w uuid of
        None \<Rightarrow> ([], w1)
      | Some a \<Rightarrow>
          if hostAllows E c then
            (let doc = d\<lparr>ae_id := randomID E (created w)\<rparr> in
             ([doc], (set_effects w1 uuid a (effects a @ [doc]))\<lparr>created := Suc (created w)\<rparr>))
          else ([], w1))"

definition deleteEmbeddedDocuments ::
  "Env \<Rightarrow> World \<Rightarrow> uuid \<Rightarrow> string list \<Rightarrow> ActiveEffect list \<times> World" where
  \<comment> \<open>the documents with the given ids leave the collection and are returned\<close>
  "deleteEmbeddedDocuments E w uuid ids =
     (let c = Delete uuid ids; w1 = host_log w c in
      case actors w uuid of
        None \<Rightarrow> ([], w1)
      | Some a \<Rightarrow>
          if hostAllows E c then
            (filter (\<lambda>e. ae_id e \<in> set ids) (effects a),
             set_effects w1 uuid a (filter (\<lambda>e. ae_id e \<notin> set ids) (effects a)))
          else ([], w1))"

definition updateEmbeddedDocuments ::
  "Env \<Rightarrow> World \<Rightarrow> uuid \<Rightarrow> ActiveEffect \<Rightarrow> ActiveEffect list \<times> World" where
  \<comment> \<open>the document with the id of the data takes the data\<close>
  "updateEmbeddedDocuments E w uuid d =
     (let c = Update uuid d; w1 = host_log w c in
      case actors w uuid of
        None \<Rightarrow> ([], w1)
      | Some a \<Rightarrow>
          if hostAllows E c then
            (filter (\<lambda>e. ae_id e = ae_id d) (map (\<lambda>e. if ae_id e = ae_id d then d else e) (effects a)),
             set_effects w1 uuid a (map (\<lambda>e. if ae_id e = ae_id d then d else e) (effects a)))
          else ([], w1))"

definition document_delete ::
  "Env \<Rightarrow> World \<Rightarrow> uuid \<Rightarrow> ActiveEffect \<Rightarrow> ActiveEffect option \<times> World" where
  \<comment> \<open>\<open>activeEffect.delete()\<close>: the deleted document, or \<open>undefined\<close> when vetoed\<close>
  "document_delete E w uuid ae =
     (let c = DocDelete uuid (ae_id ae); w1 = host_log w c in
      case actors w uuid of
        None \<Rightarrow> (None, w1)
      | Some a \<Rightarrow>
          if hostAllows E c then
            (Some ae, set_effects w1 uuid a (filter (\<lambda>e. ae_id e \<noteq> ae_id ae) (effects a)))
          else (None, w1))"

definition document_update ::
  "Env \<Rightarrow> World \<Rightarrow> uuid \<Rightarrow> ActiveEffect \<Rightarrow> bool \<Rightarrow> ActiveEffect option \<times> World" where
  \<comment> \<open>\<open>activeEffect.update({disabled: b})\<close>: the updated document, or \<open>undefined\<close> when vetoed\<close>
  "document_update E w uuid ae b =
     (let c = DocUpdate uuid (ae_id ae) b; w1 = host_log w c in
      case actors w uuid of
        None \<Rightarrow> (None, w1)
      | Some a \<Rightarrow>
          if hostAllows E c then
            (Some (ae\<lparr>ae_disabled := b\<rparr>),
             set_effects w1 uuid a
               (map (\<lambda>e. if ae_id e = ae_id ae then e\<lparr>ae_disabled := b\<rparr> else e) (effects a)))
          else (None, w1))"

section \<open>The effect handler: operations on actors\<close>

definition localize :: "Env \<Rightarrow> string \<Rightarrow> string" where
  \<comment> \<open>\<open>if (effectName) { effectName = i18n(effectName); }\<close>\<close>
  "localize E effectName = (if effectName = [] then effectName else i18n E effectName)"

definition hasEffectApplied :: "Env \<Rightarrow> World \<Rightarrow> string \<Rightarrow> uuid \<Rightarrow> error + bool" where
  \<comment> \<open>the closing log line reads \<open>actor.name\<close>: an unknown uuid is a TypeError\<close>
  "hasEffectApplied E w effectName uuid =
     (case getActorByUuid w uuid of
        None \<Rightarrow> Inl TypeError
      | Some actor \<Rightarrow>
          Inr (list_ex (\<lambda>activeEffect.
                 isStringEquals E (ae_label activeEffect) effectName \<and> \<not> ae_disabled activeEffect)
               (effects actor)))"

definition removeEffect ::
  "Env \<Rightarrow> World \<Rightarrow> string \<Rightarrow> uuid \<Rightarrow> error + (ActiveEffect option \<times> World)" where
  "removeEffect E w effectName uuid =
     (case getActorByUuid w uuid of
        None \<Rightarrow> Inl TypeError
      | Some actor \<Rightarrow>
          (case find (\<lambda>activeEffect. ae_label activeEffect = effectName) (effects actor) of
             None \<Rightarrow> Inr (None, w)
           | Some effectToRemove \<Rightarrow>
               (let (activeEffectsRemoved, w') = deleteEmbeddedDocuments E w uuid [ae_id effectToRemove]
                in Inr (first_element activeEffectsRemoved, w'))))"

definition effectNameToSet :: "ActiveEffect \<Rightarrow> string" where
  \<comment> \<open>\<open>effectEntity.name ? effectEntity.name : effectEntity.data.label\<close>\<close>
  "effectNameToSet effectEntity =
     (case ae_name effectEntity of
        None \<Rightarrow> ae_label effectEntity
      | Some n \<Rightarrow> if n = [] then ae_label effectEntity else n)"

text \<open>
  The loop of \<open>_findEffectByName\<close>: it assigns on every hit and never leaves the loop
  early. The last argument is the variable \<open>effect\<close>.
\<close>

fun findEffectByName_loop ::
  "Env \<Rightarrow> string \<Rightarrow> ActiveEffect list \<Rightarrow> Effect option \<Rightarrow> Effect option" where
  "findEffectByName_loop E effectName [] effect = effect"
| "findEffectByName_loop E effectName (effectEntity # rest) effect =
     (if effectNameToSet effectEntity = [] then findEffectByName_loop E effectName rest effect
      else if isStringEquals E (effectNameToSet effectEntity) effectName
      then findEffectByName_loop E effectName rest (Some (convertActiveEffectToEffect E effectEntity))
      else findEffectByName_loop E effectName rest effect)"

definition findEffectByName :: "Env \<Rightarrow> string option \<Rightarrow> Actor \<Rightarrow> Effect option" where
  \<comment> \<open>the source's \<open>_findEffectByName\<close>; the name is not localized here\<close>
  "findEffectByName E effectName actor =
     (case effectName of
        None \<Rightarrow> None
      | Some n \<Rightarrow> if n = [] then None else findEffectByName_loop E n (effects actor) None)"

text \<open>The loop of \<open>findEffectByNameOnActor\<close>: it leaves at the first hit (\<open>break\<close>).\<close>

fun findEffectByNameOnActor_loop :: "Env \<Rightarrow> string \<Rightarrow> ActiveEffect list \<Rightarrow> ActiveEffect option" where
  "findEffectByNameOnActor_loop E effectName [] = None"
| "findEffectByNameOnActor_loop E effectName (effectEntity # rest) =
     (if effectNameToSet effectEntity = [] then findEffectByNameOnActor_loop E effectName rest
      else if isStringEquals E (effectNameToSet effectEntity) effectName then Some effectEntity
      else findEffectByNameOnActor_loop E effectName rest)"

definition findEffectByNameOnActor ::
  "Env \<Rightarrow> World \<Rightarrow> string option \<Rightarrow> uuid \<Rightarrow> error + ActiveEffect option" where
  "findEffectByNameOnActor E w effectName uuid =
     (let effectName = (case effectName of None \<Rightarrow> [] | Some n \<Rightarrow> localize E n) in
      if effectName = [] then Inr None
      else case getActorByUuid w uuid of
             None \<Rightarrow> Inl TypeError
           | Some actor \<Rightarrow> Inr (findEffectByNameOnActor_loop E effectName (effects actor)))"

definition addEffect ::
  "Env \<Rightarrow> World \<Rightarrow> string option \<Rightarrow> Effect option \<Rightarrow> uuid \<Rightarrow> string \<Rightarrow> bool
     \<Rightarrow> error + (ActiveEffect option \<times> World)" where
  \<comment> \<open>\<open>effect.origin = effectData.origin ? ...\<close> is a TypeError when \<open>effect\<close> or
      \<open>effectData\<close> is \<open>undefined\<close>; \<open>new Effect(effectData)\<close> copies the data\<close>
  "addEffect E w effectName effectData uuid origin overlay =
     (case getActorByUuid w uuid of
        None \<Rightarrow> Inl TypeError
      | Some actor \<Rightarrow>
          (let effect = findEffectByName E effectName actor;
               effect = (case effect of None \<Rightarrow> effectData | Some e \<Rightarrow> Some e);
               origin = (if origin = [] then ''Actor.'' @ actor_id actor else origin)
           in case effect of
                None \<Rightarrow> Inl TypeError
              | Some effect \<Rightarrow>
                 (case effectData of
                    None \<Rightarrow> Inl TypeError
                  | Some effectData \<Rightarrow>
                     (let effect = handleIntegrations E effect;
                          effect = effect\<lparr>
                            eff_origin := (if eff_origin effectData = [] then origin else eff_origin effectData),
                            eff_overlay := (if eff_overlay effectData then eff_overlay effectData else overlay)\<rparr>
                      in case findEffectByNameOnActor E w effectName uuid of
                           Inl e \<Rightarrow> Inl e
                         | Inr (Some activeEffectFounded) \<Rightarrow> Inr (None, w)
                         | Inr None \<Rightarrow>
                             (let (activeEffectsAdded, w') =
                                    createEmbeddedDocuments E w uuid (convertToActiveEffectData E effect)
                              in Inr (first_element activeEffectsAdded, w'))))))"

definition hasEffectAppliedOnActor :: "Env \<Rightarrow> World \<Rightarrow> string \<Rightarrow> uuid \<Rightarrow> bool \<Rightarrow> error + bool" where
  "hasEffectAppliedOnActor E w effectName uuid includeDisabled =
     (let effectName = localize E effectName in
      case getActorByUuid w uuid of
        None \<Rightarrow> Inl TypeError
      | Some actor \<Rightarrow>
          Inr (list_ex (\<lambda>activeEffect.
                 if includeDisabled then isStringEquals E (ae_label activeEffect) effectName
                 else isStringEquals E (ae_label activeEffect) effectName \<and> \<not> ae_disabled activeEffect)
               (effects actor)))"

definition removeEffectOnActor ::
  "Env \<Rightarrow> World \<Rightarrow> string \<Rightarrow> uuid \<Rightarrow> error + (ActiveEffect option \<times> World)" where
  \<comment> \<open>the match is \<open>activeEffect?.data?.label === effectName\<close>\<close>
  "removeEffectOnActor E w effectName uuid =
     (let effectName = localize E effectName in
      case getActorByUuid w uuid of
        None \<Rightarrow> Inl TypeError
      | Some actor \<Rightarrow>
          (case find (\<lambda>activeEffect. ae_label activeEffect = effectName) (effects actor) of
             None \<Rightarrow> Inr (None, w)
           | Some effectToRemove \<Rightarrow>
               (let (activeEffectsRemoved, w') = deleteEmbeddedDocuments E w uuid [ae_id effectToRemove]
                in Inr (first_element activeEffectsRemoved, w'))))"


definition addEffectOnActor ::
  "Env \<Rightarrow> World \<Rightarrow> string \<Rightarrow> uuid \<Rightarrow> string \<Rightarrow> bool \<Rightarrow> Effect option
     \<Rightarrow> error + (ActiveEffect option \<times> World)" where
  \<comment> \<open>without an effect the function falls off its end; the lookup localizes the
      already localized name once more\<close>
  "addEffectOnActor E w effectName uuid origin overlay effect =
     (let effectName = localize E effectName in
      case effect of
        None \<Rightarrow> Inr (None, w)
      | Some effect \<Rightarrow>
          (case getActorByUuid w uuid of
             None \<Rightarrow> Inl TypeError
           | Some actor \<Rightarrow>
               (let origin = (if origin = [] then ''Actor.'' @ actor_id actor else origin);
                    effect = effect\<lparr>
                      eff_origin := (if eff_origin effect = [] then origin else eff_origin effect),
                      eff_overlay := (if eff_overlay effect then eff_overlay effect else overlay)\<rparr>
                in case findEffectByNameOnActor E w (Some effectName) uuid of
                     Inl e \<Rightarrow> Inl e
                   | Inr (Some activeEffectFounded) \<Rightarrow> Inr (None, w)
                   | Inr None \<Rightarrow>
                       (let (activeEffectsAdded, w') =
                              createEmbeddedDocuments E w uuid (convertToActiveEffectData E effect)
                        in Inr (first_element activeEffectsAdded, w')))))"

text \<open>
  \<open>toggleEffectFromIdOnActor\<close> of \<open>effect-handler.ts\<close>. \<open>activeEffect.delete()\<close> and
  \<open>activeEffect.data\<close> on the \<open>undefined\<close> that \<open>find\<close> returns for an unknown id are
  TypeErrors. \<open>!!deleted\<close> and \<open>!!updated\<close> are true when the host returned a document.
\<close>

definition toggleEffectFromIdOnActor ::
  "Env \<Rightarrow> World \<Rightarrow> string \<Rightarrow> uuid \<Rightarrow> bool \<Rightarrow> bool \<Rightarrow> bool \<Rightarrow> error + (bool \<times> World)" where
  "toggleEffectFromIdOnActor E w effectId uuid alwaysDelete forceEnabled forceDisabled =
     (case getActorByUuid w uuid of
        None \<Rightarrow> Inl TypeError
      | Some actor \<Rightarrow>
          (case find (\<lambda>entity. ae_id entity = effectId) (effects actor) of
             None \<Rightarrow> Inl TypeError
           | Some activeEffect \<Rightarrow>
               if alwaysDelete then
                 (let (deleted, w') = document_delete E w uuid activeEffect
                  in Inr (deleted \<noteq> None, w'))
               else
                 (let (updated, w') =
                    (if forceEnabled \<and> ae_disabled activeEffect
                       then document_update E w uuid activeEffect False
                     else if forceDisabled \<and> \<not> ae_disabled activeEffect
                       then document_update E w uuid activeEffect True
                     else document_update E w uuid activeEffect (\<not> ae_disabled activeEffect))
                  in Inr (updated \<noteq> None, w'))))"

text \<open>
  The older copy of the handler (the one the API facade drives) deletes on
  \<open>effect.getFlag('core', 'statusId') || alwaysDelete\<close>.
\<close>

definition toggleEffectFromIdOnActor_legacy ::
  "Env \<Rightarrow> World \<Rightarrow> string \<Rightarrow> uuid \<Rightarrow> bool \<Rightarrow> bool \<Rightarrow> bool \<Rightarrow> error + (bool \<times> World)" where
  "toggleEffectFromIdOnActor_legacy E w effectId uuid alwaysDelete forceEnabled forceDisabled =
     (case getActorByUuid w uuid of
        None \<Rightarrow> Inl TypeError
      | Some actor \<Rightarrow>
          (case find (\<lambda>entity. ae_id entity = effectId) (effects actor) of
             None \<Rightarrow> Inl TypeError
           | Some effect \<Rightarrow>
               if (if ae_statusId effect = [] then alwaysDelete else True) then
                 (let (deleted, w') = document_delete E w uuid effect
                  in Inr (deleted \<noteq> None, w'))
               else
                 (let (updated, w') =
                    (if forceEnabled \<and> ae_disabled effect
                       then document_update E w uuid effect False
                     else if forceDisabled \<and> \<not> ae_disabled effect
                       then document_update E w uuid effect True
                     else document_update E w uuid effect (\<not> ae_disabled effect))
                  in Inr (updated \<noteq> None, w'))))"

text \<open>
  \<open>toggleEffect\<close>: the body of the loop over the uuids, then the loop, then the function,
  which returns \<open>true\<close> after the loop. The \<open>metadata\<close> argument is only logged.
\<close>

definition toggleEffect_body ::
  "Env \<Rightarrow> string \<Rightarrow> bool \<Rightarrow> Effect option \<Rightarrow> World \<Rightarrow> uuid \<Rightarrow> error + World" where
  "toggleEffect_body E effectName overlay effectData w uuid =
     (case hasEffectApplied E w effectName uuid of
        Inl e \<Rightarrow> Inl e
      | Inr applied \<Rightarrow>
          if applied then
            (case removeEffect E w effectName uuid of
               Inl e \<Rightarrow> Inl e
             | Inr (removed, w') \<Rightarrow> Inr w')
          else
            (case getActorByUuid w uuid of
               None \<Rightarrow> Inl TypeError
             | Some actor \<Rightarrow>
                 (case addEffect E w (Some effectName) effectData uuid (''Actor.'' @ actor_id actor) overlay of
                    Inl e \<Rightarrow> Inl e
                  | Inr (added, w') \<Rightarrow> Inr w')))"

fun toggleEffect_loop ::
  "Env \<Rightarrow> string \<Rightarrow> bool \<Rightarrow> Effect option \<Rightarrow> World \<Rightarrow> uuid list \<Rightarrow> error + World" where
  "toggleEffect_loop E effectName overlay effectData w [] = Inr w"
| "toggleEffect_loop E effectName overlay effectData w (uuid # uuids) =
     (case toggleEffect_body E effectName overlay effectData w uuid of
        Inl e \<Rightarrow> Inl e
      | Inr w' \<Rightarrow> toggleEffect_loop E effectName overlay effectData w' uuids)"

definition toggleEffect ::
  "Env \<Rightarrow> World \<Rightarrow> string \<Rightarrow> bool \<Rightarrow> uuid list \<Rightarrow> Effect option \<Rightarrow> error + (bool \<times> World)" where
  "toggleEffect E w effectName overlay uuids effectData =
     (case toggleEffect_loop E effectName overlay effectData w uuids of
        Inl e \<Rightarrow> Inl e
      | Inr w' \<Rightarrow> Inr (True, w'))"

section \<open>The effect handler: operations on tokens\<close>

definition tokenActor :: "World \<Rightarrow> Token \<Rightarrow> (uuid \<times> Actor) option" where
  \<comment> \<open>\<open>token.actor\<close>, with the uuid the host keeps that actor under\<close>
  "tokenActor w token =
     (case token_actor token of
        None \<Rightarrow> None
      | Some u \<Rightarrow> (case actors w u of None \<Rightarrow> None | Some a \<Rightarrow> Some (u, a)))"

definition tokenOrigin :: "World \<Rightarrow> Token \<Rightarrow> string" where
  \<comment> \<open>\<open>sceneId = (token?.scene && token.scene.id) || canvas.scene?.id\<close>, then
      \<open>token.actor ? `Actor.${token.actor?.id}` : `Scene.${sceneId}.Token.${token.id}`\<close>\<close>
  "tokenOrigin w token =
     (let sceneId =
        (case token_scene_id token of
           None \<Rightarrow> canvas_scene_id w
         | Some s \<Rightarrow> if s = [] then canvas_scene_id w else Some s)
      in case tokenActor w token of
           Some (u, actor) \<Rightarrow> ''Actor.'' @ actor_id actor
         | None \<Rightarrow>
             ''Scene.'' @ (case sceneId of None \<Rightarrow> ''undefined'' | Some s \<Rightarrow> s)
               @ ''.Token.'' @ token_id token)"

text \<open>
  The loop of \<open>findEffectByNameOnToken\<close>: the name it compares is
  \<open>effectEntity.data ? effectEntity.data.label : effectEntity.label\<close>, the label of the
  document's data.
\<close>

fun findEffectByNameOnToken_loop :: "Env \<Rightarrow> string \<Rightarrow> ActiveEffect list \<Rightarrow> ActiveEffect option" where
  "findEffectByNameOnToken_loop E effectName [] = None"
| "findEffectByNameOnToken_loop E effectName (effectEntity # rest) =
     (if ae_label effectEntity = [] then findEffectByNameOnToken_loop E effectName rest
      else if isStringEquals E (ae_label effectEntity) effectName then Some effectEntity
      else findEffectByNameOnToken_loop E effectName rest)"

definition findEffectByNameOnToken ::
  "Env \<Rightarrow> World \<Rightarrow> string \<Rightarrow> uuid \<Rightarrow> error + ActiveEffect option" where
  \<comment> \<open>\<open>token.actor\<close> on an unknown token, and the loop over the effects of a token
      without actor, are TypeErrors\<close>
  "findEffectByNameOnToken E w effectName uuid =
     (let effectName = localize E effectName in
      case getTokenByUuid w uuid of
        None \<Rightarrow> Inl TypeError
      | Some token \<Rightarrow>
          if effectName = [] then Inr None
          else (case tokenActor w token of
                  None \<Rightarrow> Inl TypeError
                | Some (u, actor) \<Rightarrow> Inr (findEffectByNameOnToken_loop E effectName (effects actor))))"

definition addEffectOnToken ::
  "Env \<Rightarrow> World \<Rightarrow> string \<Rightarrow> uuid \<Rightarrow> string \<Rightarrow> bool \<Rightarrow> Effect option
     \<Rightarrow> error + (ActiveEffect option \<times> World)" where
  \<comment> \<open>without an effect the function falls off its end; \<open>activeEffectsAdded[0]\<close> on a
      token without actor is a TypeError\<close>
  "addEffectOnToken E w effectName uuid origin overlay effect =
     (let effectName = localize E effectName in
      case effect of
        None \<Rightarrow> Inr (None, w)
      | Some effect \<Rightarrow>
          (case getTokenByUuid w uuid of
             None \<Rightarrow> Inl TypeError
           | Some token \<Rightarrow>
               (let origin = (if origin = [] then tokenOrigin w token else origin);
                    effect = effect\<lparr>
                      eff_origin := (if eff_origin effect = [] then origin else eff_origin effect),
                      eff_overlay := (if eff_overlay effect then eff_overlay effect else overlay)\<rparr>
                in case findEffectByNameOnToken E w effectName uuid of
                     Inl e \<Rightarrow> Inl e
                   | Inr (Some activeEffectFounded) \<Rightarrow> Inr (Some activeEffectFounded, w)
                   | Inr None \<Rightarrow>
                       (case tokenActor w token of
                          None \<Rightarrow> Inl TypeError
                        | Some (u, actor) \<Rightarrow>
                            (let (activeEffectsAdded, w') =
                                   createEmbeddedDocuments E w u (convertToActiveEffectData E effect)
                             in Inr (first_element activeEffectsAdded, w'))))))"

text \<open>
  The two updates by name on a token. \<open>updateEffectFromNameOnToken\<close> takes an
  \<open>Effect\<close>, overwrites its origin and overlay and converts it;
  \<open>updateActiveEffectFromNameOnToken\<close> takes the document data and sends it as it is.
  Both set \<open>_id\<close> to the id of the effect found and return \<open>!!updated\<close>, which is true
  for the array, empty or not, that the host returns. An \<open>undefined\<close> last argument is
  a TypeError at the first assignment to it.
\<close>

definition updateEffectFromNameOnToken ::
  "Env \<Rightarrow> World \<Rightarrow> string \<Rightarrow> uuid \<Rightarrow> string \<Rightarrow> bool \<Rightarrow> Effect option
     \<Rightarrow> error + (bool option \<times> World)" where
  "updateEffectFromNameOnToken E w effectName uuid origin overlay effectUpdated =
     (case getTokenByUuid w uuid of
        None \<Rightarrow> Inl TypeError
      | Some token \<Rightarrow>
          (case tokenActor w token of
             None \<Rightarrow> Inl TypeError
           | Some (u, actor) \<Rightarrow>
               (case find (\<lambda>activeEffect. isStringEquals E (ae_label activeEffect) effectName)
                       (effects actor) of
                  None \<Rightarrow> Inr (None, w)
                | Some activeEffect \<Rightarrow>
                    (let origin = (if origin = [] then tokenOrigin w token else origin) in
                     case effectUpdated of
                       None \<Rightarrow> Inl TypeError
                     | Some effectUpdated \<Rightarrow>
                         (let effectUpdated = effectUpdated\<lparr>eff_origin := origin, eff_overlay := overlay\<rparr>;
                              activeEffectDataUpdated = convertToActiveEffectData E effectUpdated;
                              activeEffectDataUpdated = activeEffectDataUpdated\<lparr>ae_id := ae_id activeEffect\<rparr>;
                              (updated, w') = updateEmbeddedDocuments E w u activeEffectDataUpdated
                          in Inr (Some True, w'))))))"

definition updateActiveEffectFromNameOnToken ::
  "Env \<Rightarrow> World \<Rightarrow> string \<Rightarrow> uuid \<Rightarrow> string \<Rightarrow> bool \<Rightarrow> ActiveEffect option
     \<Rightarrow> error + (bool option \<times> World)" where
  "updateActiveEffectFromNameOnToken E w effectName uuid origin overlay effectUpdated =
     (case getTokenByUuid w uuid of
        None \<Rightarrow> Inl TypeError
      | Some token \<Rightarrow>
          (case tokenActor w token of
             None \<Rightarrow> Inl TypeError
           | Some (u, actor) \<Rightarrow>
               (case find (\<lambda>activeEffect. isStringEquals E (ae_label activeEffect) effectName)
                       (effects actor) of
                  None \<Rightarrow> Inr (None, w)
                | Some activeEffect \<Rightarrow>
                    (case effectUpdated of
                       None \<Rightarrow> Inl TypeError
                     | Some effectUpdated \<Rightarrow>
                         (let activeEffectDataUpdated = effectUpdated;
                              activeEffectDataUpdated = activeEffectDataUpdated\<lparr>ae_id := ae_id activeEffect\<rparr>;
                              (updated, w') = updateEmbeddedDocuments E w u activeEffectDataUpdated
                          in Inr (Some True, w'))))))"

section \<open>The positional-array variants\<close>

text \<open>
  The values a caller can put into the argument list of an \<open>Arr\<close> method, whose rest
  parameter is typed \<open>any[]\<close>: \<open>undefined\<close>, a string, a boolean, an array of strings,
  an \<open>Effect\<close> object, or the data object of an active effect.
\<close>

datatype any =
    Undefined
  | String string
  | Boolean bool
  | StringArray "string list"
  | EffectObject Effect
  | ActiveEffectDataObject ActiveEffect

definition Array_isArray :: "any list \<Rightarrow> bool" where
  \<comment> \<open>a rest parameter is an array, whatever the caller passes\<close>
  "Array_isArray inAttributes = True"

definition element :: "any list \<Rightarrow> nat \<Rightarrow> any" where
  \<comment> \<open>one position of the destructuring \<open>const [a, b, ...] = inAttributes\<close>\<close>
  "element inAttributes i = (if i < length inAttributes then inAttributes ! i else Undefined)"

text \<open>
  How a base method reads an argument at the type it declares for the parameter. A
  string parameter is only tested and compared: every value that is not a string reads
  as the empty, falsy one. An object is read by property name: the data object of an
  active effect, read as an \<open>Effect\<close>, has an \<open>origin\<close> and none of the properties
  \<open>name\<close>, \<open>customId\<close> and \<open>overlay\<close>.
\<close>

fun asString :: "any \<Rightarrow> string" where
  "asString (String s) = s"
| "asString v = []"

fun asBoolean :: "any \<Rightarrow> bool" where
  "asBoolean (Boolean b) = b"
| "asBoolean (String s) = (s \<noteq> [])"
| "asBoolean Undefined = False"
| "asBoolean v = True"

fun asEffect :: "any \<Rightarrow> Effect option" where
  "asEffect (EffectObject e) = Some e"
| "asEffect (ActiveEffectDataObject d) =
     Some \<lparr>eff_customId = [], eff_name = [], eff_origin = ae_origin d, eff_overlay = False\<rparr>"
| "asEffect v = None"

fun asActiveEffectData :: "any \<Rightarrow> ActiveEffect option" where
  "asActiveEffectData (ActiveEffectDataObject d) = Some d"
| "asActiveEffectData (EffectObject e) =
     Some \<lparr>ae_id = [], ae_name = Some (eff_name e), ae_label = [], ae_disabled = False,
           ae_origin = eff_origin e, ae_overlay = False, ae_statusId = []\<rparr>"
| "asActiveEffectData v = None"

fun asIterable :: "any \<Rightarrow> string list option" where
  \<comment> \<open>\<open>for (const uuid of uuids)\<close>: an array gives its elements, a string its characters,
      anything else is not iterable\<close>
  "asIterable (StringArray us) = Some us"
| "asIterable (String s) = Some (map (\<lambda>c. [c]) s)"
| "asIterable v = None"

definition toggleEffectArr :: "Env \<Rightarrow> World \<Rightarrow> any list \<Rightarrow> error + (bool \<times> World)" where
  "toggleEffectArr E w inAttributes =
     (if \<not> Array_isArray inAttributes
      then Inl (Error ''toggleEffectArr | inAttributes must be of type array'')
      else
        (let effectName = element inAttributes 0;
             overlay = element inAttributes 1;
             uuids = element inAttributes 2;
             metadata = element inAttributes 3;
             effectData = element inAttributes 4
         in case asIterable uuids of
              None \<Rightarrow> Inl TypeError
            | Some uuids \<Rightarrow>
                toggleEffect E w (asString effectName) (asBoolean overlay) uuids (asEffect effectData)))"

text \<open>
  \<open>updateActiveEffectFromNameOnTokenArr\<close> of the handler ends in
  \<open>return this.updateEffectFromNameOnToken(effectName, uuid, origin, overlay, effectUpdated)\<close>.
\<close>

definition updateActiveEffectFromNameOnTokenArr ::
  "Env \<Rightarrow> World \<Rightarrow> any list \<Rightarrow> error + (bool option \<times> World)" where
  "updateActiveEffectFromNameOnTokenArr E w inAttributes =
     (if \<not> Array_isArray inAttributes
      then Inl (Error ''updateActiveEffectFromNameOnTokenArr | inAttributes must be of type array'')
      else
        (let effectName = element inAttributes 0;
             uuid = element inAttributes 1;
             origin = element inAttributes 2;
             overlay = element inAttributes 3;
             effectUpdated = element inAttributes 4
         in updateEffectFromNameOnToken E w (asString effectName) (asString uuid) (asString origin)
              (asBoolean overlay) (asEffect effectUpdated)))"

section \<open>The imported helpers, as the specification describes them\<close>

text \<open>
  Modelled from the spec: \<open>isStringEquals\<close> of the module's library file, which is not
  among the sources. The specification calls the lookups case-insensitive comparisons
  of strings: two strings are equal when their lower-case forms are. Only the letters
  A to Z have a lower-case form here.
\<close>

definition toLowerCase_char :: "char \<Rightarrow> char" where
  "toLowerCase_char c =
     (case map_of (zip ''ABCDEFGHIJKLMNOPQRSTUVWXYZ'' ''abcdefghijklmnopqrstuvwxyz'') c of
        None \<Rightarrow> c
      | Some l \<Rightarrow> l)"

definition toLowerCase :: "string \<Rightarrow> string" where
  "toLowerCase s = map toLowerCase_char s"

definition isStringEquals_spec :: "string \<Rightarrow> string \<Rightarrow> bool" where
  "isStringEquals_spec a b = (toLowerCase a = toLowerCase b)"

text \<open>
  Modelled from the spec: the two conversions of \<open>EffectSupport\<close>, which is not among
  the sources, "between a plain Effect value object and the host's native active-effect
  document shape": the display name of the document is the name of the effect, the
  custom identifier is the id, origin and overlay flag are carried over, and a converted
  effect is enabled.
\<close>

definition convertToActiveEffectData_spec :: "Effect \<Rightarrow> ActiveEffect" where
  "convertToActiveEffectData_spec effect =
     \<lparr>ae_id = eff_customId effect, ae_name = None, ae_label = eff_name effect,
      ae_disabled = False, ae_origin = eff_origin effect, ae_overlay = eff_overlay effect,
      ae_statusId = []\<rparr>"

definition convertActiveEffectToEffect_spec :: "ActiveEffect \<Rightarrow> Effect" where
  "convertActiveEffectToEffect_spec activeEffect =
     \<lparr>eff_customId = ae_id activeEffect, eff_name = ae_label activeEffect,
      eff_origin = ae_origin activeEffect, eff_overlay = ae_overlay activeEffect\<rparr>"

text \<open>
  An environment to run the handler in: the helpers as above, a localization without
  translations (\<open>i18n\<close> returns its key), no integration changing an effect, and a host
  that carries out every call and numbers the documents it creates.
\<close>

definition specEnv :: Env where
  "specEnv =
     \<lparr>isStringEquals = isStringEquals_spec,
      i18n = (\<lambda>key. key),
      convertToActiveEffectData = convertToActiveEffectData_spec,
      convertActiveEffectToEffect = convertActiveEffectToEffect_spec,
      handleIntegrations = (\<lambda>effect. effect),
      hostAllows = (\<lambda>c. True),
      randomID = (\<lambda>n. ''new'' @ replicate n (CHR ''x''))\<rparr>"

text \<open>
  Two variations of that environment: a localization whose translations are keys
  themselves (\<open>A\<close> is translated to \<open>B\<close>, and \<open>B\<close> to \<open>C\<close>), and a host that
  carries out no call (a \<open>preCreateActiveEffect\<close> or \<open>preDeleteActiveEffect\<close> hook
  returning \<open>false\<close>).
\<close>

definition chainEnv :: Env where
  "chainEnv = specEnv\<lparr>i18n := (\<lambda>key. if key = ''A'' then ''B'' else if key = ''B'' then ''C'' else key)\<rparr>"

definition vetoEnv :: Env where
  "vetoEnv = specEnv\<lparr>hostAllows := (\<lambda>c. False)\<rparr>"

section \<open>Matching a stored effect against a name\<close>

text \<open>
  What the two name lookups test on each stored effect: its name (or, without one, its
  label) is not empty and \<open>isStringEquals\<close> relates it to the requested name.
\<close>

definition matchesName :: "Env \<Rightarrow> string \<Rightarrow> ActiveEffect \<Rightarrow> bool" where
  "matchesName E effectName effectEntity =
     (effectNameToSet effectEntity \<noteq> [] \<and> isStringEquals E (effectNameToSet effectEntity) effectName)"

section \<open>An effect present under a name\<close>

text \<open>
  The display name of a stored effect is its name, or its label when it has no name.
  An effect is present on an actor under a name when the name is not empty and some
  effect of the actor has a display name that is not empty and that \<open>isStringEquals\<close>
  relates to the name; it is present under a label when the same holds of the label of
  some effect.
\<close>

definition displayName :: "ActiveEffect \<Rightarrow> string" where
  "displayName activeEffect =
     (case ae_name activeEffect of
        Some n \<Rightarrow> (if n = [] then ae_label activeEffect else n)
      | None \<Rightarrow> ae_label activeEffect)"

definition namePresent :: "Env \<Rightarrow> string \<Rightarrow> Actor \<Rightarrow> bool" where
  "namePresent E effectName actor =
     (effectName \<noteq> []
      \<and> list_ex (\<lambda>activeEffect. displayName activeEffect \<noteq> []
                  \<and> isStringEquals E (displayName activeEffect) effectName) (effects actor))"

definition labelPresent :: "Env \<Rightarrow> string \<Rightarrow> Actor \<Rightarrow> bool" where
  "labelPresent E effectName actor =
     (effectName \<noteq> []
      \<and> list_ex (\<lambda>activeEffect. ae_label activeEffect \<noteq> []
                  \<and> isStringEquals E (ae_label activeEffect) effectName) (effects actor))"

text \<open>
  The invariant on an actor: no two of its effects have the same display name. What a
  call returns matches a name when it is \<open>undefined\<close>, or a document whose display
  name matches the name.
\<close>

definition onePerDisplayName :: "Actor \<Rightarrow> bool" where
  "onePerDisplayName actor = distinct (map displayName (effects actor))"

definition createdMatches :: "Env \<Rightarrow> string \<Rightarrow> ActiveEffect option \<Rightarrow> bool" where
  "createdMatches E effectName returned =
     (case returned of
        None \<Rightarrow> True
      | Some activeEffect \<Rightarrow>
          effectName \<noteq> [] \<and> displayName activeEffect \<noteq> []
          \<and> isStringEquals E (displayName activeEffect) effectName)"

text \<open>
  A name matches the label of a stored effect, for a removal, when the label is the name
  or \<open>isStringEquals\<close> relates the two. An effect is applied on an actor under a name
  when a non-disabled effect of the actor has a label that \<open>isStringEquals\<close> relates
  to the name.
\<close>

definition labelMatches :: "Env \<Rightarrow> string \<Rightarrow> ActiveEffect \<Rightarrow> bool" where
  "labelMatches E effectName activeEffect =
     (ae_label activeEffect = effectName \<or> isStringEquals E (ae_label activeEffect) effectName)"

definition applied :: "Env \<Rightarrow> string \<Rightarrow> Actor \<Rightarrow> bool" where
  "applied E effectName actor =
     list_ex (\<lambda>activeEffect. isStringEquals E (ae_label activeEffect) effectName
                \<and> \<not> ae_disabled activeEffect) (effects actor)"

text \<open>
  The data that \<open>toggleEffect\<close> sends to the host for an effect to add: the effect
  data passed, or, when stored effects of the actor match the name as it was passed,
  the conversion of the last of them; after the integrations; with the origin of the
  data passed, if it has one, and \<open>Actor.<id>\<close> otherwise; as an overlay when the data
  passed or the argument say so; converted to the data of an active effect.
\<close>

definition effectToAdd :: "Env \<Rightarrow> string \<Rightarrow> bool \<Rightarrow> Effect \<Rightarrow> Actor \<Rightarrow> ActiveEffect" where
  "effectToAdd E effectName overlay effectData actor =
     convertToActiveEffectData E
       ((handleIntegrations E
           (if effectName = []
               \<or> filter (\<lambda>e. displayName e \<noteq> [] \<and> isStringEquals E (displayName e) effectName)
                    (effects actor) = []
            then effectData
            else convertActiveEffectToEffect E
                   (last (filter (\<lambda>e. displayName e \<noteq> [] \<and> isStringEquals E (displayName e) effectName)
                      (effects actor)))))
        \<lparr>eff_origin := (if eff_origin effectData = [] then ''Actor.'' @ actor_id actor
                        else eff_origin effectData),
         eff_overlay := (if eff_overlay effectData then True else overlay)\<rparr>)"

text \<open>Two calls of \<open>addEffectOnActor\<close> in a row.\<close>

definition addEffectOnActor_twice ::
  "Env \<Rightarrow> World \<Rightarrow> string \<Rightarrow> uuid \<Rightarrow> string \<Rightarrow> bool \<Rightarrow> Effect option
     \<Rightarrow> error + (ActiveEffect option \<times> World)" where
  \<comment> \<open>two calls of \<open>addEffectOnActor\<close> with the same arguments, one after the other\<close>
  "addEffectOnActor_twice E w effectName uuid origin overlay effect =
     (case addEffectOnActor E w effectName uuid origin overlay effect of
        Inl e \<Rightarrow> Inl e
      | Inr (added, w') \<Rightarrow> addEffectOnActor E w' effectName uuid origin overlay effect)"

section \<open>What the claims say of an outcome\<close>


text \<open>
  The toggle as the specification words it: delete, force enabled, force disabled, or
  flip, as one host call on the effect.
\<close>

definition three_branch_toggle :: "bool \<Rightarrow> bool \<Rightarrow> bool \<Rightarrow> uuid \<Rightarrow> ActiveEffect \<Rightarrow> host_call" where
  "three_branch_toggle delete forceEnabled forceDisabled uuid activeEffect =
     (if delete then DocDelete uuid (ae_id activeEffect)
      else if forceEnabled \<and> ae_disabled activeEffect then DocUpdate uuid (ae_id activeEffect) False
      else if forceDisabled \<and> \<not> ae_disabled activeEffect then DocUpdate uuid (ae_id activeEffect) True
      else DocUpdate uuid (ae_id activeEffect) (\<not> ae_disabled activeEffect))"

text \<open>What a call on one document does to the collection when the host carries it out.\<close>

fun carried_out :: "host_call \<Rightarrow> ActiveEffect list \<Rightarrow> ActiveEffect list" where
  "carried_out (DocDelete uuid i) es = filter (\<lambda>e. ae_id e \<noteq> i) es"
| "carried_out (DocUpdate uuid i b) es = map (\<lambda>e. if ae_id e = i then e\<lparr>ae_disabled := b\<rparr> else e) es"
| "carried_out c es = es"

text \<open>
  The outcome of a toggle: the one call made, the returned truth value, which is whether
  the host carried the call out, and the collection afterwards.
\<close>

definition toggle_outcome ::
  "Env \<Rightarrow> World \<Rightarrow> uuid \<Rightarrow> Actor \<Rightarrow> host_call \<Rightarrow> error + (bool \<times> World) \<Rightarrow> bool" where
  "toggle_outcome E w uuid actor c result =
     (case result of
        Inl err \<Rightarrow> False
      | Inr (returned, w') \<Rightarrow>
          calls w' = calls w @ [c]
          \<and> returned = hostAllows E c
          \<and> getActorByUuid w' uuid =
              Some (if hostAllows E c then actor\<lparr>effects := carried_out c (effects actor)\<rparr> else actor))"

section \<open>The pre-check before a creation\<close>

text \<open>
  What \<open>addEffect\<close> and \<open>addEffectOnActor\<close> end in: with an effect found by the
  lookup, \<open>undefined\<close> and no host call; without one, the creation of the data.
\<close>

definition precheck_then_create ::
  "Env \<Rightarrow> World \<Rightarrow> uuid \<Rightarrow> ActiveEffect option \<Rightarrow> ActiveEffect
     \<Rightarrow> error + (ActiveEffect option \<times> World)" where
  "precheck_then_create E w uuid activeEffectFounded activeEffectData =
     (case activeEffectFounded of
        Some found \<Rightarrow> Inr (None, w)
      | None \<Rightarrow>
          (let (activeEffectsAdded, w') = createEmbeddedDocuments E w uuid activeEffectData
           in Inr (first_element activeEffectsAdded, w')))"

text \<open>
  The display names of the effects of an actor, in the order of the collection; the
  same after a call; the calls on the host that a call leaves in the log; and what a
  call returns.
\<close>

definition displayNames :: "World \<Rightarrow> uuid \<Rightarrow> string list" where
  "displayNames w uuid =
     (case getActorByUuid w uuid of
        None \<Rightarrow> []
      | Some actor \<Rightarrow> map displayName (effects actor))"

definition displayNames_after :: "error + ('a \<times> World) \<Rightarrow> uuid \<Rightarrow> string list" where
  "displayNames_after result uuid =
     (case result of Inl err \<Rightarrow> [] | Inr (returned, w') \<Rightarrow> displayNames w' uuid)"

definition calls_after :: "error + ('a \<times> World) \<Rightarrow> host_call list" where
  "calls_after result = (case result of Inl err \<Rightarrow> [] | Inr (returned, w') \<Rightarrow> calls w')"

definition returned_after :: "error + ('a option \<times> World) \<Rightarrow> 'a option" where
  "returned_after result = (case result of Inl err \<Rightarrow> None | Inr (returned, w') \<Rightarrow> returned)"

section \<open>Example documents\<close>

definition stored_effect :: "string \<Rightarrow> string \<Rightarrow> bool \<Rightarrow> ActiveEffect" where
  \<comment> \<open>a stored effect with the given id, label and disabled flag\<close>
  "stored_effect i l d =
     \<lparr>ae_id = i, ae_name = None, ae_label = l, ae_disabled = d, ae_origin = ''Actor.a1'',
      ae_overlay = False, ae_statusId = []\<rparr>"

definition example_actor :: "ActiveEffect list \<Rightarrow> Actor" where
  "example_actor es = \<lparr>actor_id = ''a1'', actor_name = ''Hero'', effects = es\<rparr>"

definition example_world :: "ActiveEffect list \<Rightarrow> World" where
  \<comment> \<open>one actor with the given effects, and one token of that actor\<close>
  "example_world es =
     \<lparr>actors = [''Actor.a1'' \<mapsto> example_actor es],
      tokens = [''Token.t1'' \<mapsto>
        \<lparr>token_id = ''t1'', token_name = ''Hero'', token_actor = Some ''Actor.a1'',
         token_scene_id = Some ''s1''\<rparr>],
      canvas_scene_id = Some ''s1'',
      calls = [],
      created = 0\<rparr>"

section \<open>The status-effect name list: facts and claims\<close>

subsection \<open>Facts about the set spread\<close>

lemma new_Set_snoc: "new_Set (xs @ [x]) = Set_add (new_Set xs) x"
  by (simp add: new_Set_def)

lemma set_new_Set: "set (new_Set xs) = set xs"
proof (induction xs rule: rev_induct)
  case Nil
  show ?case by (simp add: new_Set_def)
next
  case (snoc x xs)
  then show ?case by (auto simp: new_Set_snoc Set_add_def)
qed

lemma distinct_new_Set: "distinct (new_Set xs)"
proof (induction xs rule: rev_induct)
  case Nil
  show ?case by (simp add: new_Set_def)
next
  case (snoc x xs)
  then show ?case by (simp add: new_Set_snoc Set_add_def)
qed

lemma first_occurrences_snoc:
  "first_occurrences (xs @ [x]) =
     (if x \<in> set xs then first_occurrences xs else first_occurrences xs @ [x])"
proof -
  have "filter (\<lambda>i. (xs @ [x]) ! i \<notin> set (take i (xs @ [x]))) [0..<length xs] =
        filter (\<lambda>i. xs ! i \<notin> set (take i xs)) [0..<length xs]"
    by (rule filter_cong) (auto simp: nth_append)
  moreover have "map (\<lambda>i. (xs @ [x]) ! i) (filter (\<lambda>i. xs ! i \<notin> set (take i xs)) [0..<length xs]) =
        map (\<lambda>i. xs ! i) (filter (\<lambda>i. xs ! i \<notin> set (take i xs)) [0..<length xs])"
    by (rule map_cong) (auto simp: nth_append)
  ultimately show ?thesis
    by (simp add: first_occurrences_def)
qed

lemma new_Set_first_occurrences: "new_Set xs = first_occurrences xs"
proof (induction xs rule: rev_induct)
  case Nil
  show ?case by (simp add: new_Set_def first_occurrences_def)
next
  case (snoc x xs)
  have "set (first_occurrences xs) = set xs"
    using snoc set_new_Set [of xs] by simp
  then show ?case
    using snoc by (simp add: new_Set_snoc first_occurrences_snoc Set_add_def)
qed

subsection \<open>Claims about the status-effect name list\<close>

text \<open>
  C6. \<open>addStatusEffect\<close> appends the name to the stored list and removes duplicates:
  the stored result holds each name at most once, holds exactly the old names and the
  new one, and lists them in the order of their first occurrence.
  \<open>removeStatusEffect\<close> stores the old list without the entries equal to the name,
  the other entries unchanged and in their original order.
\<close>

theorem C6_status_effect_list:
  "distinct (statusEffectNames (addStatusEffect name s))
   \<and> set (statusEffectNames (addStatusEffect name s)) = insert name (set (statusEffectNames s))
   \<and> statusEffectNames (addStatusEffect name s) = first_occurrences (statusEffectNames s @ [name])
   \<and> statusEffectNames (removeStatusEffect name s) = filter (\<lambda>e. e \<noteq> name) (statusEffectNames s)"
proof -
  have stored: "statusEffectNames (addStatusEffect name s) = new_Set (statusEffectNames s @ [name])"
    by (simp add: addStatusEffect_def settings_set_def statusEffectNames_def)
  have "distinct (statusEffectNames (addStatusEffect name s))"
    unfolding stored by (rule distinct_new_Set)
  moreover have "set (statusEffectNames (addStatusEffect name s)) = insert name (set (statusEffectNames s))"
    unfolding stored by (simp add: set_new_Set)
  moreover have "statusEffectNames (addStatusEffect name s) = first_occurrences (statusEffectNames s @ [name])"
    unfolding stored by (rule new_Set_first_occurrences)
  moreover have "statusEffectNames (removeStatusEffect name s) = filter (\<lambda>e. e \<noteq> name) (statusEffectNames s)"
    by (simp add: removeStatusEffect_def settings_set_def statusEffectNames_def)
  ultimately show ?thesis by blast
qed

text \<open>
  C7. \<open>isStatusEffect name\<close> is true right after \<open>addStatusEffect name\<close> and false
  right after \<open>removeStatusEffect name\<close>; after \<open>resetStatusEffects\<close> it is false for
  every name, the default list being empty.
\<close>

theorem C7_isStatusEffect_after_update:
  "isStatusEffect name (addStatusEffect name s)
   \<and> \<not> isStatusEffect name (removeStatusEffect name s)
   \<and> (\<forall>n. \<not> isStatusEffect n (resetStatusEffects s))
   \<and> defaultStatusEffectNames = []"
  by (simp add: isStatusEffect_def addStatusEffect_def removeStatusEffect_def
        resetStatusEffects_def settings_set_def statusEffectNames_def set_new_Set
        defaultStatusEffectNames_def)

section \<open>The name lookups\<close>

lemma first_element_hd: "xs \<noteq> [] \<Longrightarrow> first_element xs = Some (hd xs)"
  by (cases xs) (simp_all add: first_element_def)

lemma findEffectByNameOnActor_loop_filter:
  "findEffectByNameOnActor_loop E n es = first_element (filter (matchesName E n) es)"
  by (induction es) (simp_all add: matchesName_def first_element_def)

lemma findEffectByName_loop_filter:
  "findEffectByName_loop E n es acc =
     (if filter (matchesName E n) es = [] then acc
      else Some (convertActiveEffectToEffect E (last (filter (matchesName E n) es))))"
  by (induction es arbitrary: acc) (simp_all add: matchesName_def)

lemmas example_defs =
  specEnv_def isStringEquals_spec_def toLowerCase_def toLowerCase_char_def
  convertToActiveEffectData_spec_def convertActiveEffectToEffect_spec_def
  stored_effect_def example_actor_def example_world_def
  getActorByUuid_def getTokenByUuid_def matchesName_def effectNameToSet_def localize_def
  first_element_def

lemmas host_defs =
  createEmbeddedDocuments_def deleteEmbeddedDocuments_def updateEmbeddedDocuments_def
  document_delete_def document_update_def host_log_def set_effects_def

lemmas spec_defs =
  displayName_def namePresent_def labelPresent_def onePerDisplayName_def createdMatches_def
  chainEnv_def vetoEnv_def displayNames_def displayNames_after_def labelMatches_def
  returned_after_def applied_def effectToAdd_def

text \<open>
  C10. When effects of an actor match the requested name (in particular when more than
  one does), \<open>findEffectByNameOnActor\<close> returns the first of them in the collection's
  order, for the localized name, and \<open>_findEffectByName\<close> returns the conversion of the
  last of them, for the name as given.
\<close>

theorem C10_first_match_and_last_match:
  assumes "getActorByUuid w uuid = Some actor" and "n \<noteq> []" and "i18n E n \<noteq> []"
    and "filter (matchesName E (i18n E n)) (effects actor) \<noteq> []"
    and "filter (matchesName E n) (effects actor) \<noteq> []"
  shows "findEffectByNameOnActor E w (Some n) uuid
           = Inr (Some (hd (filter (matchesName E (i18n E n)) (effects actor))))
       \<and> findEffectByName E (Some n) actor
           = Some (convertActiveEffectToEffect E (last (filter (matchesName E n) (effects actor))))"
  using assms
  by (simp add: findEffectByNameOnActor_def findEffectByName_def localize_def
        findEffectByNameOnActor_loop_filter findEffectByName_loop_filter first_element_hd)

theorem C10_witness:
  "findEffectByNameOnActor specEnv
     (example_world [stored_effect ''e0'' ''Deaf'' False, stored_effect ''e1'' ''Blind'' False,
                     stored_effect ''e2'' ''BLIND'' True])
     (Some ''blind'') ''Actor.a1''
     = Inr (Some (stored_effect ''e1'' ''Blind'' False))
   \<and> findEffectByName specEnv (Some ''blind'')
       (example_actor [stored_effect ''e0'' ''Deaf'' False, stored_effect ''e1'' ''Blind'' False,
                       stored_effect ''e2'' ''BLIND'' True])
     = Some (convertActiveEffectToEffect specEnv (stored_effect ''e2'' ''BLIND'' True))"
  using C10_first_match_and_last_match
    [where E = specEnv and n = "''blind''" and uuid = "''Actor.a1''"
       and w = "example_world [stored_effect ''e0'' ''Deaf'' False,
                  stored_effect ''e1'' ''Blind'' False, stored_effect ''e2'' ''BLIND'' True]"
       and actor = "example_actor [stored_effect ''e0'' ''Deaf'' False,
                  stored_effect ''e1'' ''Blind'' False, stored_effect ''e2'' ''BLIND'' True]"]
  by (simp add: example_defs)

text \<open>
  C4. The lookups \<open>hasEffectAppliedOnActor\<close> and \<open>findEffectByNameOnActor\<close> compare
  with \<open>isStringEquals\<close>; \<open>removeEffectOnActor\<close> compares the label with \<open>===\<close>.
  On an actor whose only effect is labelled \<open>Blind\<close>, the name \<open>blind\<close> is reported
  as applied and is found, and the removal finds nothing, deletes nothing and returns
  \<open>undefined\<close>.
\<close>

theorem C4_removeEffectOnActor_compares_exactly:
  "hasEffectAppliedOnActor specEnv (example_world [stored_effect ''e1'' ''Blind'' False])
      ''blind'' ''Actor.a1'' False = Inr True
   \<and> findEffectByNameOnActor specEnv (example_world [stored_effect ''e1'' ''Blind'' False])
      (Some ''blind'') ''Actor.a1'' = Inr (Some (stored_effect ''e1'' ''Blind'' False))
   \<and> removeEffectOnActor specEnv (example_world [stored_effect ''e1'' ''Blind'' False])
      ''blind'' ''Actor.a1'' = Inr (None, example_world [stored_effect ''e1'' ''Blind'' False])"
  by (simp add: hasEffectAppliedOnActor_def findEffectByNameOnActor_def removeEffectOnActor_def
        example_defs)

section \<open>The lookup by name and the presence of an effect\<close>

lemma effectNameToSet_displayName: "effectNameToSet e = displayName e"
  by (simp add: effectNameToSet_def displayName_def split: option.splits)

lemma namePresent_filter:
  "namePresent E m actor = (m \<noteq> [] \<and> filter (matchesName E m) (effects actor) \<noteq> [])"
  by (simp add: namePresent_def matchesName_def effectNameToSet_displayName filter_empty_conv
        list_ex_iff)

lemma lookup_spec:
  assumes "getActorByUuid w uuid = Some actor"
  shows "\<exists>found. findEffectByNameOnActor E w (Some name) uuid = Inr found
           \<and> (found = None) = (\<not> namePresent E (localize E name) actor)"
proof (cases "localize E name = []")
  case True
  then show ?thesis by (simp add: findEffectByNameOnActor_def namePresent_def)
next
  case False
  have "findEffectByNameOnActor E w (Some name) uuid
          = Inr (first_element (filter (matchesName E (localize E name)) (effects actor)))"
    using assms False by (simp add: findEffectByNameOnActor_def findEffectByNameOnActor_loop_filter)
  moreover have "(first_element (filter (matchesName E (localize E name)) (effects actor)) = None)
                   = (\<not> namePresent E (localize E name) actor)"
    using False by (simp add: namePresent_filter first_element_def split: list.splits)
  ultimately show ?thesis by simp
qed


section \<open>Removing an effect\<close>









section \<open>Toggling an effect by id\<close>

text \<open>
  C3 (amended). Given the id of an effect present on the actor,
  \<open>toggleEffectFromIdOnActor\<close> of \<open>effect-handler.ts\<close> is the three-branch toggle on
  \<open>alwaysDelete\<close>; the older copy of the handler is the same toggle, deleting when
  \<open>alwaysDelete\<close> is true or the effect carries the flag \<open>core.statusId\<close>. Either
  returns true exactly when the host carried the deletion or the update out.
\<close>

theorem C3_toggle_by_id:
  assumes "getActorByUuid w uuid = Some actor"
    and "find (\<lambda>entity. ae_id entity = effectId) (effects actor) = Some activeEffect"
  shows "toggle_outcome E w uuid actor
           (three_branch_toggle alwaysDelete forceEnabled forceDisabled uuid activeEffect)
           (toggleEffectFromIdOnActor E w effectId uuid alwaysDelete forceEnabled forceDisabled)
       \<and> toggle_outcome E w uuid actor
           (three_branch_toggle (alwaysDelete \<or> ae_statusId activeEffect \<noteq> [])
              forceEnabled forceDisabled uuid activeEffect)
           (toggleEffectFromIdOnActor_legacy E w effectId uuid alwaysDelete forceEnabled forceDisabled)"
proof -
  have del: "toggle_outcome E w uuid actor (DocDelete uuid (ae_id activeEffect))
               (let (deleted, w') = document_delete E w uuid activeEffect in Inr (deleted \<noteq> None, w'))"
    using assms(1)
    by (simp add: toggle_outcome_def document_delete_def getActorByUuid_def host_log_def
          set_effects_def Let_def)
  have upd: "toggle_outcome E w uuid actor (DocUpdate uuid (ae_id activeEffect) b)
               (let (updated, w') = document_update E w uuid activeEffect b in Inr (updated \<noteq> None, w'))" for b
    using assms(1)
    by (simp add: toggle_outcome_def document_update_def getActorByUuid_def host_log_def
          set_effects_def Let_def)
  have "toggle_outcome E w uuid actor
           (three_branch_toggle alwaysDelete forceEnabled forceDisabled uuid activeEffect)
           (toggleEffectFromIdOnActor E w effectId uuid alwaysDelete forceEnabled forceDisabled)"
    using assms del upd [of False] upd [of True] upd [of "\<not> ae_disabled activeEffect"]
    by (simp add: toggleEffectFromIdOnActor_def three_branch_toggle_def)
  moreover have "toggle_outcome E w uuid actor
           (three_branch_toggle (alwaysDelete \<or> ae_statusId activeEffect \<noteq> [])
              forceEnabled forceDisabled uuid activeEffect)
           (toggleEffectFromIdOnActor_legacy E w effectId uuid alwaysDelete forceEnabled forceDisabled)"
    using assms del upd [of False] upd [of True] upd [of "\<not> ae_disabled activeEffect"]
    by (simp add: toggleEffectFromIdOnActor_legacy_def three_branch_toggle_def)
  ultimately show ?thesis by blast
qed

theorem C3_toggle_by_id_witness:
  "getActorByUuid (example_world [(stored_effect ''e1'' ''Blind'' True)\<lparr>ae_statusId := ''blind''\<rparr>])
      ''Actor.a1''
     = Some (example_actor [(stored_effect ''e1'' ''Blind'' True)\<lparr>ae_statusId := ''blind''\<rparr>])
   \<and> find (\<lambda>entity. ae_id entity = ''e1'')
        (effects (example_actor [(stored_effect ''e1'' ''Blind'' True)\<lparr>ae_statusId := ''blind''\<rparr>]))
     = Some ((stored_effect ''e1'' ''Blind'' True)\<lparr>ae_statusId := ''blind''\<rparr>)
   \<and> toggle_outcome specEnv
        (example_world [(stored_effect ''e1'' ''Blind'' True)\<lparr>ae_statusId := ''blind''\<rparr>])
        ''Actor.a1''
        (example_actor [(stored_effect ''e1'' ''Blind'' True)\<lparr>ae_statusId := ''blind''\<rparr>])
        (DocUpdate ''Actor.a1'' ''e1'' False)
        (toggleEffectFromIdOnActor specEnv
          (example_world [(stored_effect ''e1'' ''Blind'' True)\<lparr>ae_statusId := ''blind''\<rparr>])
          ''e1'' ''Actor.a1'' False True False)
   \<and> toggle_outcome specEnv
        (example_world [(stored_effect ''e1'' ''Blind'' True)\<lparr>ae_statusId := ''blind''\<rparr>])
        ''Actor.a1''
        (example_actor [(stored_effect ''e1'' ''Blind'' True)\<lparr>ae_statusId := ''blind''\<rparr>])
        (DocDelete ''Actor.a1'' ''e1'')
        (toggleEffectFromIdOnActor_legacy specEnv
          (example_world [(stored_effect ''e1'' ''Blind'' True)\<lparr>ae_statusId := ''blind''\<rparr>])
          ''e1'' ''Actor.a1'' False True False)"
  using C3_toggle_by_id
    [where E = specEnv and uuid = "''Actor.a1''" and effectId = "''e1''"
       and alwaysDelete = False and forceEnabled = True and forceDisabled = False
       and w = "example_world [(stored_effect ''e1'' ''Blind'' True)\<lparr>ae_statusId := ''blind''\<rparr>]"
       and actor = "example_actor [(stored_effect ''e1'' ''Blind'' True)\<lparr>ae_statusId := ''blind''\<rparr>]"
       and activeEffect = "(stored_effect ''e1'' ''Blind'' True)\<lparr>ae_statusId := ''blind''\<rparr>"]
  by (simp add: example_defs three_branch_toggle_def)

text \<open>
  The claim as stated fails on the older copy: with \<open>alwaysDelete\<close> false and no
  forcing, an enabled effect that carries the flag \<open>core.statusId\<close> is deleted, where
  the three-branch toggle on \<open>alwaysDelete\<close> alone flips its \<open>disabled\<close> flag.
\<close>

theorem C3_counterexample:
  "\<not> toggle_outcome specEnv
        (example_world [(stored_effect ''e1'' ''Blind'' False)\<lparr>ae_statusId := ''blind''\<rparr>])
        ''Actor.a1''
        (example_actor [(stored_effect ''e1'' ''Blind'' False)\<lparr>ae_statusId := ''blind''\<rparr>])
        (three_branch_toggle False False False ''Actor.a1''
           ((stored_effect ''e1'' ''Blind'' False)\<lparr>ae_statusId := ''blind''\<rparr>))
        (toggleEffectFromIdOnActor_legacy specEnv
          (example_world [(stored_effect ''e1'' ''Blind'' False)\<lparr>ae_statusId := ''blind''\<rparr>])
          ''e1'' ''Actor.a1'' False False False)"
  by (simp add: toggle_outcome_def three_branch_toggle_def toggleEffectFromIdOnActor_legacy_def
        document_delete_def host_log_def set_effects_def example_defs)

section \<open>Adding an effect by name\<close>

lemma addEffect_not_given:
  assumes "getActorByUuid w uuid = Some actor" and "effectData = None"
  shows "addEffect E w effectName effectData uuid origin overlay = Inl TypeError"
  using assms by (simp add: addEffect_def Let_def split: option.splits)

lemma addEffect_given:
  assumes "getActorByUuid w uuid = Some actor" and "effectData = Some ed"
  shows "\<exists>d. addEffect E w effectName effectData uuid origin overlay =
            (case findEffectByNameOnActor E w effectName uuid of
               Inl e \<Rightarrow> Inl e
             | Inr found \<Rightarrow> precheck_then_create E w uuid found d)"
proof -
  define eff where "eff = (case findEffectByName E effectName actor of None \<Rightarrow> ed | Some e \<Rightarrow> e)"
  define d where "d = convertToActiveEffectData E ((handleIntegrations E eff)\<lparr>
       eff_origin := (if eff_origin ed = []
                      then (if origin = [] then ''Actor.'' @ actor_id actor else origin)
                      else eff_origin ed),
       eff_overlay := (if eff_overlay ed then eff_overlay ed else overlay)\<rparr>)"
  have "addEffect E w effectName effectData uuid origin overlay =
            (case findEffectByNameOnActor E w effectName uuid of
               Inl e \<Rightarrow> Inl e
             | Inr found \<Rightarrow> precheck_then_create E w uuid found d)"
    unfolding addEffect_def precheck_then_create_def d_def eff_def
    using assms
    by (simp add: Let_def split: option.splits sum.splits)
  then show ?thesis by blast
qed

lemma addEffectOnActor_cases:
  assumes "getActorByUuid w uuid = Some actor"
  shows "addEffectOnActor E w effectName uuid origin overlay effect = Inr (None, w)
       \<or> (\<exists>d. addEffectOnActor E w effectName uuid origin overlay effect =
            (case findEffectByNameOnActor E w (Some (localize E effectName)) uuid of
               Inl e \<Rightarrow> Inl e
             | Inr found \<Rightarrow> precheck_then_create E w uuid found d))"
proof (cases effect)
  case None
  then have "addEffectOnActor E w effectName uuid origin overlay effect = Inr (None, w)"
    by (simp add: addEffectOnActor_def Let_def)
  then show ?thesis by blast
next
  case (Some eff)
  define d where "d = convertToActiveEffectData E (eff\<lparr>
       eff_origin := (if eff_origin eff = []
                      then (if origin = [] then ''Actor.'' @ actor_id actor else origin)
                      else eff_origin eff),
       eff_overlay := (if eff_overlay eff then eff_overlay eff else overlay)\<rparr>)"
  have "addEffectOnActor E w effectName uuid origin overlay effect =
            (case findEffectByNameOnActor E w (Some (localize E effectName)) uuid of
               Inl e \<Rightarrow> Inl e
             | Inr found \<Rightarrow> precheck_then_create E w uuid found d)"
    unfolding addEffectOnActor_def precheck_then_create_def d_def
    using assms Some
    by (simp add: Let_def split: option.splits sum.splits)
  then show ?thesis by blast
qed

lemma create_keeps_names:
  assumes actor: "getActorByUuid w uuid = Some actor"
    and one: "onePerDisplayName actor"
    and absent: "\<not> namePresent E m actor"
    and c: "createEmbeddedDocuments E w uuid d = (added, w')"
    and cm: "createdMatches E m (first_element added)"
  shows "\<exists>actor'. getActorByUuid w' uuid = Some actor' \<and> onePerDisplayName actor'"
proof (cases "hostAllows E (Create uuid d)")
  case False
  then have "getActorByUuid w' uuid = Some actor"
    using actor c
    by (auto simp: createEmbeddedDocuments_def getActorByUuid_def host_log_def Let_def)
  then show ?thesis using one by blast
next
  case True
  define doc where "doc = d\<lparr>ae_id := randomID E (created w)\<rparr>"
  have added: "added = [doc]" and w': "getActorByUuid w' uuid = Some (actor\<lparr>effects := effects actor @ [doc]\<rparr>)"
    using actor c True
    by (auto simp: createEmbeddedDocuments_def getActorByUuid_def host_log_def set_effects_def
          Let_def doc_def)
  have m: "m \<noteq> [] \<and> displayName doc \<noteq> [] \<and> isStringEquals E (displayName doc) m"
    using cm added by (simp add: createdMatches_def first_element_def)
  have "displayName doc \<notin> set (map displayName (effects actor))"
  proof
    assume "displayName doc \<in> set (map displayName (effects actor))"
    then obtain e where "e \<in> set (effects actor)" and "displayName e = displayName doc" by auto
    then have "e \<in> set (effects actor) \<and> displayName e \<noteq> [] \<and> isStringEquals E (displayName e) m"
      using m by simp
    then have "namePresent E m actor" using m unfolding namePresent_def list_ex_iff by blast
    then show False using absent by simp
  qed
  then have "onePerDisplayName (actor\<lparr>effects := effects actor @ [doc]\<rparr>)"
    using one by (simp add: onePerDisplayName_def)
  then show ?thesis using w' by blast
qed

lemma precheck_keeps_names:
  assumes actor: "getActorByUuid w uuid = Some actor"
    and one: "onePerDisplayName actor"
    and link: "(found = None) = (\<not> namePresent E m actor)"
    and p: "precheck_then_create E w uuid found d = Inr (r, w')"
    and cm: "createdMatches E m r"
  shows "\<exists>actor'. getActorByUuid w' uuid = Some actor' \<and> onePerDisplayName actor'"
proof (cases found)
  case (Some x)
  then have "w' = w" using p by (simp add: precheck_then_create_def)
  then show ?thesis using actor one by blast
next
  case None
  then have absent: "\<not> namePresent E m actor" using link by simp
  obtain added w1 where c: "createEmbeddedDocuments E w uuid d = (added, w1)"
    by (cases "createEmbeddedDocuments E w uuid d")
  have "r = first_element added" and "w' = w1"
    using p None c by (simp_all add: precheck_then_create_def)
  then show ?thesis using create_keeps_names [OF actor one absent c] cm by simp
qed

text \<open>
  C1 (amended). On a resolved actor, when an effect whose display name (its name, or
  its label without one) matches the localized effect name is present, \<open>addEffect\<close>
  (given effect data) returns \<open>undefined\<close> and leaves the world, the list of host calls
  included, as it was; so does \<open>addEffectOnActor\<close> when localizing the localized name
  again does not change it. On an actor whose effects have distinct display names, a
  call of either that returns leaves the display names distinct whenever the document
  it returns, if any, has a display name matching the localized effect name.
\<close>

theorem C1_precheck_before_create:
  assumes actor: "getActorByUuid w uuid = Some actor"
  shows "(effectData \<noteq> None \<and> namePresent E (localize E name) actor
            \<longrightarrow> addEffect E w (Some name) effectData uuid origin overlay = Inr (None, w))
       \<and> (localize E (localize E name) = localize E name \<and> namePresent E (localize E name) actor
            \<longrightarrow> addEffectOnActor E w name uuid origin overlay effect = Inr (None, w))
       \<and> (onePerDisplayName actor
            \<and> addEffect E w (Some name) effectData uuid origin overlay = Inr (r, w')
            \<and> createdMatches E (localize E name) r
            \<longrightarrow> (\<exists>actor'. getActorByUuid w' uuid = Some actor' \<and> onePerDisplayName actor'))
       \<and> (localize E (localize E name) = localize E name \<and> onePerDisplayName actor
            \<and> addEffectOnActor E w name uuid origin overlay effect = Inr (r, w')
            \<and> createdMatches E (localize E name) r
            \<longrightarrow> (\<exists>actor'. getActorByUuid w' uuid = Some actor' \<and> onePerDisplayName actor'))"
proof -
  obtain found where look: "findEffectByNameOnActor E w (Some name) uuid = Inr found"
      and link: "(found = None) = (\<not> namePresent E (localize E name) actor)"
    using lookup_spec [OF actor] by blast
  have look2: "\<exists>found2. findEffectByNameOnActor E w (Some (localize E name)) uuid = Inr found2
                 \<and> (found2 = None) = (\<not> namePresent E (localize E name) actor)"
    if "localize E (localize E name) = localize E name"
    using lookup_spec [OF actor, of E "localize E name"] that by simp
  have a1: "addEffect E w (Some name) effectData uuid origin overlay = Inr (None, w)"
    if given: "effectData \<noteq> None" and present: "namePresent E (localize E name) actor"
  proof -
    obtain ed where ed: "effectData = Some ed" using given by blast
    obtain x where f: "found = Some x" using present link by (cases found) simp_all
    obtain d where "addEffect E w (Some name) effectData uuid origin overlay =
            (case findEffectByNameOnActor E w (Some name) uuid of
               Inl e \<Rightarrow> Inl e
             | Inr found \<Rightarrow> precheck_then_create E w uuid found d)"
      using addEffect_given [OF actor ed] by blast
    then show ?thesis by (simp add: look f precheck_then_create_def)
  qed
  have a2: "addEffectOnActor E w name uuid origin overlay effect = Inr (None, w)"
    if idem: "localize E (localize E name) = localize E name"
      and present: "namePresent E (localize E name) actor"
  proof -
    obtain found2 where l2: "findEffectByNameOnActor E w (Some (localize E name)) uuid = Inr found2"
        and link2: "(found2 = None) = (\<not> namePresent E (localize E name) actor)"
      using look2 [OF idem] by blast
    obtain x where f: "found2 = Some x" using present link2 by (cases found2) simp_all
    show ?thesis
      using addEffectOnActor_cases [OF actor, of E name origin overlay effect]
      by (auto simp: l2 f precheck_then_create_def)
  qed
  have a3: "\<exists>actor'. getActorByUuid w' uuid = Some actor' \<and> onePerDisplayName actor'"
    if one: "onePerDisplayName actor"
      and res: "addEffect E w (Some name) effectData uuid origin overlay = Inr (r, w')"
      and cm: "createdMatches E (localize E name) r"
  proof -
    have "effectData \<noteq> None"
    proof
      assume "effectData = None"
      then have "addEffect E w (Some name) effectData uuid origin overlay = Inl TypeError"
        by (rule addEffect_not_given [OF actor])
      then show False using res by simp
    qed
    then obtain ed where ed: "effectData = Some ed" by blast
    obtain d where "addEffect E w (Some name) effectData uuid origin overlay =
            (case findEffectByNameOnActor E w (Some name) uuid of
               Inl e \<Rightarrow> Inl e
             | Inr found \<Rightarrow> precheck_then_create E w uuid found d)"
      using addEffect_given [OF actor ed] by blast
    then have "precheck_then_create E w uuid found d = Inr (r, w')"
      using res by (simp add: look)
    then show ?thesis using precheck_keeps_names [OF actor one link _ cm] by blast
  qed
  have a4: "\<exists>actor'. getActorByUuid w' uuid = Some actor' \<and> onePerDisplayName actor'"
    if idem: "localize E (localize E name) = localize E name"
      and one: "onePerDisplayName actor"
      and res: "addEffectOnActor E w name uuid origin overlay effect = Inr (r, w')"
      and cm: "createdMatches E (localize E name) r"
  proof -
    obtain found2 where l2: "findEffectByNameOnActor E w (Some (localize E name)) uuid = Inr found2"
        and link2: "(found2 = None) = (\<not> namePresent E (localize E name) actor)"
      using look2 [OF idem] by blast
    consider (unchanged) "addEffectOnActor E w name uuid origin overlay effect = Inr (None, w)"
      | (checked) d where "addEffectOnActor E w name uuid origin overlay effect =
            (case findEffectByNameOnActor E w (Some (localize E name)) uuid of
               Inl e \<Rightarrow> Inl e
             | Inr found \<Rightarrow> precheck_then_create E w uuid found d)"
      using addEffectOnActor_cases [OF actor, of E name origin overlay effect] by blast
    then show ?thesis
    proof cases
      case unchanged
      then have "w' = w" using res by simp
      then show ?thesis using actor one by blast
    next
      case checked
      then have "precheck_then_create E w uuid found2 d = Inr (r, w')"
        using res by (simp add: l2)
      then show ?thesis using precheck_keeps_names [OF actor one link2 _ cm] by blast
    qed
  qed
  show ?thesis using a1 a2 a3 a4 by blast
qed

theorem C1_precheck_before_create_witness:
  "getActorByUuid (example_world [stored_effect ''e1'' ''Blind'' False]) ''Actor.a1''
     = Some (example_actor [stored_effect ''e1'' ''Blind'' False])
   \<and> namePresent specEnv (localize specEnv ''blind'') (example_actor [stored_effect ''e1'' ''Blind'' False])
   \<and> addEffect specEnv (example_world [stored_effect ''e1'' ''Blind'' False]) (Some ''blind'')
        (Some \<lparr>eff_customId = [], eff_name = ''blind'', eff_origin = [], eff_overlay = False\<rparr>)
        ''Actor.a1'' [] False
     = Inr (None, example_world [stored_effect ''e1'' ''Blind'' False])
   \<and> addEffectOnActor specEnv (example_world [stored_effect ''e1'' ''Blind'' False]) ''blind''
        ''Actor.a1'' [] False
        (Some \<lparr>eff_customId = [], eff_name = ''blind'', eff_origin = [], eff_overlay = False\<rparr>)
     = Inr (None, example_world [stored_effect ''e1'' ''Blind'' False])
   \<and> onePerDisplayName (example_actor [stored_effect ''e0'' ''Deaf'' False])
   \<and> (\<exists>r w' actor'.
         addEffectOnActor specEnv (example_world [stored_effect ''e0'' ''Deaf'' False]) ''blind''
           ''Actor.a1'' [] False
           (Some \<lparr>eff_customId = [], eff_name = ''blind'', eff_origin = [], eff_overlay = False\<rparr>)
         = Inr (r, w')
         \<and> r \<noteq> None
         \<and> getActorByUuid w' ''Actor.a1'' = Some actor'
         \<and> length (effects actor') = 2
         \<and> onePerDisplayName actor')"
proof -
  let ?W = "example_world [stored_effect ''e1'' ''Blind'' False]"
  let ?A = "example_actor [stored_effect ''e1'' ''Blind'' False]"
  let ?V = "example_world [stored_effect ''e0'' ''Deaf'' False]"
  let ?B = "example_actor [stored_effect ''e0'' ''Deaf'' False]"
  let ?e = "Some \<lparr>eff_customId = [], eff_name = ''blind'', eff_origin = [], eff_overlay = False\<rparr>"
  have actor: "getActorByUuid ?W ''Actor.a1'' = Some ?A"
    by (simp add: example_defs)
  have actor0: "getActorByUuid ?V ''Actor.a1'' = Some ?B"
    by (simp add: example_defs)
  have loc: "localize specEnv ''blind'' = ''blind''"
    by (simp add: example_defs)
  have idem: "localize specEnv (localize specEnv ''blind'') = localize specEnv ''blind''"
    by (simp add: loc)
  have present: "namePresent specEnv (localize specEnv ''blind'') ?A"
    by (simp add: spec_defs example_defs)
  have given: "?e \<noteq> None" by simp
  note claim = C1_precheck_before_create [OF actor, where effectData = ?e and effect = ?e and origin = "[]"
      and overlay = False]
  have undefined1: "addEffect specEnv ?W (Some ''blind'') ?e ''Actor.a1'' [] False = Inr (None, ?W)"
    using claim given present by blast
  have undefined2: "addEffectOnActor specEnv ?W ''blind'' ''Actor.a1'' [] False ?e = Inr (None, ?W)"
    using claim idem present by blast
  have one: "onePerDisplayName ?B"
    by (simp add: spec_defs example_defs)
  let ?D = "\<lparr>ae_id = [], ae_name = None, ae_label = ''blind'', ae_disabled = False,
             ae_origin = ''Actor.a1'', ae_overlay = False, ae_statusId = []\<rparr>"
  have run: "addEffectOnActor specEnv ?V ''blind'' ''Actor.a1'' [] False ?e
               = Inr (Some (?D\<lparr>ae_id := ''new''\<rparr>), snd (createEmbeddedDocuments specEnv ?V ''Actor.a1'' ?D))"
    by (simp add: addEffectOnActor_def findEffectByNameOnActor_def host_defs example_defs Let_def)
  have cm: "createdMatches specEnv (localize specEnv ''blind'') (Some (?D\<lparr>ae_id := ''new''\<rparr>))"
    by (simp add: spec_defs example_defs)
  note claim0 = C1_precheck_before_create [OF actor0, where effect = ?e and origin = "[]" and overlay = False
      and r = "Some (?D\<lparr>ae_id := ''new''\<rparr>)"
      and w' = "snd (createEmbeddedDocuments specEnv ?V ''Actor.a1'' ?D)"]
  obtain actor' where a': "getActorByUuid (snd (createEmbeddedDocuments specEnv ?V ''Actor.a1'' ?D)) ''Actor.a1''
                             = Some actor'"
      and one': "onePerDisplayName actor'"
    using claim0 idem one run cm by blast
  have "length (effects actor') = 2"
    using a' by (auto simp: host_defs example_defs Let_def)
  then have created: "\<exists>r w' actor'.
         addEffectOnActor specEnv ?V ''blind'' ''Actor.a1'' [] False ?e = Inr (r, w')
         \<and> r \<noteq> None
         \<and> getActorByUuid w' ''Actor.a1'' = Some actor'
         \<and> length (effects actor') = 2
         \<and> onePerDisplayName actor'"
    using run a' one' by blast
  show ?thesis using actor present undefined1 undefined2 one created by blast
qed

text \<open>
  The claim as stated fails in three ways. With an effect \<open>Blind\<close> present and no
  effect data, \<open>addEffect\<close> raises a TypeError instead of returning \<open>undefined\<close>.
  The created effect takes its display name from the \<open>Effect\<close> object while the
  pre-check looks for the \<open>effectName\<close> argument: two calls
  \<open>addEffectOnActor('Blind', uuid, '', false, effect)\<close> with an effect named
  \<open>Deaf\<close> on an actor without effects create two effects with the display name
  \<open>Deaf\<close>. And \<open>addEffectOnActor\<close> localizes the name before a lookup that
  localizes it again: where \<open>A\<close> is translated to \<open>B\<close> and \<open>B\<close> to \<open>C\<close>, an
  effect \<open>B\<close> is present under the localized name of \<open>A\<close>, the lookup searches
  for \<open>C\<close>, and a second effect \<open>B\<close> is created.
\<close>

theorem C1_counterexample:
  "namePresent specEnv (localize specEnv ''Blind'') (example_actor [stored_effect ''e1'' ''Blind'' False])
   \<and> addEffect specEnv (example_world [stored_effect ''e1'' ''Blind'' False]) (Some ''Blind'') None
        ''Actor.a1'' [] False
     = Inl TypeError
   \<and> \<not> distinct (displayNames_after
        (addEffectOnActor_twice specEnv (example_world []) ''Blind'' ''Actor.a1'' [] False
           (Some \<lparr>eff_customId = [], eff_name = ''Deaf'', eff_origin = ''Actor.a1'', eff_overlay = True\<rparr>))
        ''Actor.a1'')
   \<and> namePresent chainEnv (localize chainEnv ''A'') (example_actor [stored_effect ''e1'' ''B'' False])
   \<and> \<not> distinct (displayNames_after
        (addEffectOnActor chainEnv (example_world [stored_effect ''e1'' ''B'' False]) ''A'' ''Actor.a1''
           [] False
           (Some \<lparr>eff_customId = [], eff_name = ''B'', eff_origin = ''Actor.a1'', eff_overlay = False\<rparr>))
        ''Actor.a1'')"
  by (simp add: addEffectOnActor_twice_def addEffectOnActor_def addEffect_def findEffectByName_def
        findEffectByNameOnActor_def host_defs spec_defs example_defs Let_def)

section \<open>Toggling an effect by name\<close>
















section \<open>A duplicate on a token and on an actor\<close>

lemma labelPresent_filter:
  "labelPresent E m actor
     = (m \<noteq> []
        \<and> filter (\<lambda>e. ae_label e \<noteq> [] \<and> isStringEquals E (ae_label e) m) (effects actor) \<noteq> [])"
  by (simp add: labelPresent_def filter_empty_conv list_ex_iff)

lemma findEffectByNameOnToken_loop_filter:
  "findEffectByNameOnToken_loop E m es
     = first_element (filter (\<lambda>e. ae_label e \<noteq> [] \<and> isStringEquals E (ae_label e) m) es)"
  by (induction es) (simp_all add: first_element_def)

text \<open>
  C9 (amended). For a token of an actor, with an effect object passed and a name whose
  localization is not changed by localizing it again: when an effect whose label
  matches the localized name is present on the actor, \<open>addEffectOnToken\<close> returns the
  first such effect and creates nothing (the world, the list of host calls included, is
  as it was); when an effect whose display name matches the localized name is present
  on the actor, \<open>addEffectOnActor\<close> returns \<open>undefined\<close> and creates nothing.
\<close>

theorem C9_duplicate_on_token_and_actor:
  assumes token: "getTokenByUuid w tokenUuid = Some token"
    and link: "token_actor token = Some actorUuid"
    and actor: "getActorByUuid w actorUuid = Some actor"
    and given: "effect \<noteq> None"
    and idem: "localize E (localize E name) = localize E name"
  shows "(labelPresent E (localize E name) actor
            \<longrightarrow> addEffectOnToken E w name tokenUuid origin overlay effect
                  = Inr (Some (hd (filter (\<lambda>e. ae_label e \<noteq> []
                                      \<and> isStringEquals E (ae_label e) (localize E name))
                                    (effects actor))), w))
       \<and> (namePresent E (localize E name) actor
            \<longrightarrow> addEffectOnActor E w name actorUuid origin overlay effect = Inr (None, w))"
proof -
  obtain eff where eff: "effect = Some eff" using given by blast
  have ta: "tokenActor w token = Some (actorUuid, actor)"
    using link actor by (simp add: tokenActor_def getActorByUuid_def)
  have t: "addEffectOnToken E w name tokenUuid origin overlay effect
                  = Inr (Some (hd (filter (\<lambda>e. ae_label e \<noteq> []
                                      \<and> isStringEquals E (ae_label e) (localize E name))
                                    (effects actor))), w)"
    if present: "labelPresent E (localize E name) actor"
  proof -
    have "findEffectByNameOnToken E w (localize E name) tokenUuid
            = Inr (Some (hd (filter (\<lambda>e. ae_label e \<noteq> []
                                      \<and> isStringEquals E (ae_label e) (localize E name))
                                    (effects actor))))"
      using present token ta idem
      by (simp add: findEffectByNameOnToken_def findEffectByNameOnToken_loop_filter
            labelPresent_filter first_element_hd)
    then show ?thesis using token by (simp add: addEffectOnToken_def eff Let_def)
  qed
  have a: "addEffectOnActor E w name actorUuid origin overlay effect = Inr (None, w)"
    if present: "namePresent E (localize E name) actor"
  proof -
    obtain found where "findEffectByNameOnActor E w (Some (localize E name)) actorUuid = Inr found"
        and "(found = None) = (\<not> namePresent E (localize E name) actor)"
      using lookup_spec [OF actor, of E "localize E name"] idem by auto
    then obtain x where "findEffectByNameOnActor E w (Some (localize E name)) actorUuid = Inr (Some x)"
      using present by (cases found) simp_all
    then show ?thesis using actor by (simp add: addEffectOnActor_def eff Let_def)
  qed
  show ?thesis using t a by blast
qed

theorem C9_duplicate_on_token_and_actor_witness:
  "getTokenByUuid (example_world [stored_effect ''e0'' ''Deaf'' False, stored_effect ''e1'' ''Blind'' True])
      ''Token.t1''
     = Some \<lparr>token_id = ''t1'', token_name = ''Hero'', token_actor = Some ''Actor.a1'',
              token_scene_id = Some ''s1''\<rparr>
   \<and> getActorByUuid (example_world [stored_effect ''e0'' ''Deaf'' False, stored_effect ''e1'' ''Blind'' True])
        ''Actor.a1''
     = Some (example_actor [stored_effect ''e0'' ''Deaf'' False, stored_effect ''e1'' ''Blind'' True])
   \<and> localize specEnv (localize specEnv ''blind'') = localize specEnv ''blind''
   \<and> labelPresent specEnv (localize specEnv ''blind'')
        (example_actor [stored_effect ''e0'' ''Deaf'' False, stored_effect ''e1'' ''Blind'' True])
   \<and> namePresent specEnv (localize specEnv ''blind'')
        (example_actor [stored_effect ''e0'' ''Deaf'' False, stored_effect ''e1'' ''Blind'' True])
   \<and> addEffectOnToken specEnv
        (example_world [stored_effect ''e0'' ''Deaf'' False, stored_effect ''e1'' ''Blind'' True])
        ''blind'' ''Token.t1'' [] False
        (Some \<lparr>eff_customId = [], eff_name = ''Blind'', eff_origin = [], eff_overlay = False\<rparr>)
     = Inr (Some (stored_effect ''e1'' ''Blind'' True),
            example_world [stored_effect ''e0'' ''Deaf'' False, stored_effect ''e1'' ''Blind'' True])
   \<and> addEffectOnActor specEnv
        (example_world [stored_effect ''e0'' ''Deaf'' False, stored_effect ''e1'' ''Blind'' True])
        ''blind'' ''Actor.a1'' [] False
        (Some \<lparr>eff_customId = [], eff_name = ''Blind'', eff_origin = [], eff_overlay = False\<rparr>)
     = Inr (None, example_world [stored_effect ''e0'' ''Deaf'' False, stored_effect ''e1'' ''Blind'' True])"
proof -
  let ?W = "example_world [stored_effect ''e0'' ''Deaf'' False, stored_effect ''e1'' ''Blind'' True]"
  let ?A = "example_actor [stored_effect ''e0'' ''Deaf'' False, stored_effect ''e1'' ''Blind'' True]"
  let ?T = "\<lparr>token_id = ''t1'', token_name = ''Hero'', token_actor = Some ''Actor.a1'',
              token_scene_id = Some ''s1''\<rparr>"
  let ?e = "Some \<lparr>eff_customId = [], eff_name = ''Blind'', eff_origin = [], eff_overlay = False\<rparr>"
  have token: "getTokenByUuid ?W ''Token.t1'' = Some ?T"
    by (simp add: example_defs)
  have link: "token_actor ?T = Some ''Actor.a1''" by simp
  have actor: "getActorByUuid ?W ''Actor.a1'' = Some ?A"
    by (simp add: example_defs)
  have given: "?e \<noteq> None" by simp
  have loc: "localize specEnv ''blind'' = ''blind''"
    by (simp add: example_defs)
  have idem: "localize specEnv (localize specEnv ''blind'') = localize specEnv ''blind''"
    by (simp add: loc)
  have onLabel: "labelPresent specEnv (localize specEnv ''blind'') ?A"
    by (simp add: spec_defs example_defs)
  have onName: "namePresent specEnv (localize specEnv ''blind'') ?A"
    by (simp add: spec_defs example_defs)
  have first: "hd (filter (\<lambda>e. ae_label e \<noteq> []
                     \<and> isStringEquals specEnv (ae_label e) (localize specEnv ''blind'')) (effects ?A))
                 = stored_effect ''e1'' ''Blind'' True"
    by (simp add: example_defs)
  note claim = C9_duplicate_on_token_and_actor [OF token link actor given idem, where origin = "[]" and overlay = False]
  have t: "addEffectOnToken specEnv ?W ''blind'' ''Token.t1'' [] False ?e
             = Inr (Some (stored_effect ''e1'' ''Blind'' True), ?W)"
    using claim onLabel first by simp
  have a: "addEffectOnActor specEnv ?W ''blind'' ''Actor.a1'' [] False ?e = Inr (None, ?W)"
    using claim onName by blast
  show ?thesis using token actor idem onLabel onName t a by blast
qed

text \<open>
  The claim as stated fails in two ways. \<open>addEffectOnToken\<close> tests \<open>if (effect)\<close>
  first: without an effect object it returns \<open>undefined\<close> although the effect is
  present on the token's actor. And it localizes the name before a lookup that
  localizes it again: where \<open>A\<close> is translated to \<open>B\<close> and \<open>B\<close> to \<open>C\<close>, an
  effect \<open>B\<close> is present under the localized name of \<open>A\<close>, and a second effect
  \<open>B\<close> is created.
\<close>

theorem C9_counterexample:
  "labelPresent specEnv (localize specEnv ''Blind'') (example_actor [stored_effect ''e1'' ''Blind'' False])
   \<and> addEffectOnToken specEnv (example_world [stored_effect ''e1'' ''Blind'' False]) ''Blind''
        ''Token.t1'' [] False None
     = Inr (None, example_world [stored_effect ''e1'' ''Blind'' False])
   \<and> labelPresent chainEnv (localize chainEnv ''A'') (example_actor [stored_effect ''e1'' ''B'' False])
   \<and> calls_after
        (addEffectOnToken chainEnv (example_world [stored_effect ''e1'' ''B'' False]) ''A''
           ''Token.t1'' [] False
           (Some \<lparr>eff_customId = [], eff_name = ''B'', eff_origin = [], eff_overlay = False\<rparr>))
     = [Create ''Actor.a1''
          \<lparr>ae_id = [], ae_name = None, ae_label = ''B'', ae_disabled = False,
           ae_origin = ''Actor.a1'', ae_overlay = False, ae_statusId = []\<rparr>]"
  by (simp add: findEffectByNameOnToken_def addEffectOnToken_def tokenActor_def tokenOrigin_def
        calls_after_def host_defs spec_defs example_defs Let_def)

section \<open>The positional-array variants against their base methods\<close>

lemma toggleEffectArr_is_toggleEffect:
  "toggleEffectArr E w [String effectName, Boolean overlay, StringArray uuids, metadata, EffectObject effectData]
     = toggleEffect E w effectName overlay uuids (Some effectData)"
  by (simp add: toggleEffectArr_def Array_isArray_def element_def)

text \<open>
  C8. \<open>updateActiveEffectFromNameOnTokenArr\<close> of the handler does not call its base
  method \<open>updateActiveEffectFromNameOnToken\<close> but \<open>updateEffectFromNameOnToken\<close>. Given
  the data of an active effect (label \<open>Blinded\<close>, disabled) for the effect \<open>Blind\<close>
  of a token, the variant reads the data as an \<open>Effect\<close>, overwrites origin and overlay,
  converts it and sends the host a document without label, enabled; the base method sends
  the data with the id set.
\<close>

theorem C8_updateActiveEffectFromNameOnTokenArr_calls_other_method:
  "calls_after
     (updateActiveEffectFromNameOnTokenArr specEnv (example_world [stored_effect ''e1'' ''Blind'' False])
        [String ''Blind'', String ''Token.t1'', String ''Actor.a1'', Boolean False,
         ActiveEffectDataObject (stored_effect ''x'' ''Blinded'' True)])
     = [Update ''Actor.a1'' (stored_effect ''e1'' [] False)]
   \<and> calls_after
     (updateActiveEffectFromNameOnToken specEnv (example_world [stored_effect ''e1'' ''Blind'' False])
        ''Blind'' ''Token.t1'' ''Actor.a1'' False (Some (stored_effect ''x'' ''Blinded'' True)))
     = [Update ''Actor.a1'' (stored_effect ''e1'' ''Blinded'' True)]"
  by (simp add: calls_after_def updateActiveEffectFromNameOnTokenArr_def
        updateEffectFromNameOnToken_def updateActiveEffectFromNameOnToken_def
        Array_isArray_def element_def tokenActor_def host_defs example_defs Let_def)

end
